theory Spec2Isabelle
  imports Main "HOL-Library.Sublist" "HOL-Library.Word"
begin

section \<open>Data model\<close>

text \<open>
  Modelled from the spec: the schema files of the three collections (the models that the
  controllers import) are missing. The spec names the entities User, Doctor "with an
  ad-hoc per-date array of booked time strings" and Appointment with "foreign keys to
  user/doctor, a \<^verbatim>\<open>payment\<close> boolean, a \<^verbatim>\<open>cancelled\<close> boolean". Beyond these a
  document has exactly the fields the controllers read or write. Every stored document
  carries the identifier that the source reads as \<^verbatim>\<open>_id\<close>; it is the field \<open>ident\<close>
  here. A field that a document may lack (\<^verbatim>\<open>undefined\<close> in the source) is an
  \<open>option\<close>. The controllers read no field of a user.
\<close>

record document =
  ident :: string

text \<open>
  A JavaScript string is a sequence of UTF-16 code units; its \<^verbatim>\<open>length\<close> counts them. The
  texts that a request supplies and the controllers clean, measure or store are
  \<open>jsstring\<close>s. The literal texts of the program, the identifiers and the dates are
  ASCII and written as \<open>string\<close>s; \<open>utf16\<close> gives the code units of such a text.
\<close>

type_synonym code_unit = "16 word"

type_synonym jsstring = "code_unit list"

definition utf16 :: "string \<Rightarrow> jsstring" where
  "utf16 s = map of_char s"

record appointment = document +
  userId :: "string option"
  docId :: string
  slotDate :: string
  slotTime :: string
  payment :: bool
  cancelled :: bool

datatype jsvalue = JNaN | JNumber int | JString string | JObject "(string \<times> jsvalue) list"

text \<open>
  The fields \<open>image_url\<close> of a doctor and \<open>size_bytes\<close> of an uploaded file are the
  source's \<^verbatim>\<open>image\<close> and \<^verbatim>\<open>size\<close>.
\<close>

record doctor = document +
  name :: jsstring
  email :: jsstring
  image_url :: string
  password :: "string option"
  speciality :: jsstring
  degree :: jsstring
  experience :: jsstring
  about :: jsstring
  fees :: jsvalue
  address :: jsvalue
  date :: nat
  slots_booked :: "(string \<rightharpoonup> string list) option"

record db =
  doctors :: "doctor list"
  users :: "document list"
  appointments :: "appointment list"

text \<open>JavaScript truthiness of a value that is a string or \<^verbatim>\<open>undefined\<close>.\<close>

definition truthy :: "'a list option \<Rightarrow> bool" where
  "truthy v = (case v of None \<Rightarrow> False | Some s \<Rightarrow> s \<noteq> [])"

subsection \<open>Queries\<close>

text \<open>
  \<^verbatim>\<open>Model.findById(id)\<close> answers the first document with that identifier, or null.
  \<^verbatim>\<open>Model.findByIdAndUpdate(id, update)\<close> applies the update to that one document and to
  no other.
\<close>

fun findById :: "string \<Rightarrow> ('a document_scheme) list \<Rightarrow> 'a document_scheme option" where
  "findById i [] = None"
| "findById i (x # xs) = (if ident x = i then Some x else findById i xs)"

fun updateById ::
  "string \<Rightarrow> ('a document_scheme \<Rightarrow> 'a document_scheme) \<Rightarrow> ('a document_scheme) list
    \<Rightarrow> ('a document_scheme) list" where
  "updateById i g [] = []"
| "updateById i g (x # xs) = (if ident x = i then g x # xs else x # updateById i g xs)"

text \<open>
  A query is a network round trip and may throw. \<open>faults k\<close> is the message of the error
  that the \<open>k\<close>-th awaited external call of a handler throws, if it throws.
\<close>

type_synonym faults = "nat \<Rightarrow> string option"

definition no_faults :: faults where
  "no_faults = (\<lambda>k. None)"

subsection \<open>Responses\<close>

datatype jv =
    JBool bool
  | JNum int
  | JStr string
  | JText jsstring
  | JDoctors "doctor list"
  | JAppointments "appointment list"
  | JObj "(string \<times> jv) list"

datatype body = Send string | Json "(string \<times> jv) list"

record response =
  status :: nat
  body :: body

definition json :: "(string \<times> jv) list \<Rightarrow> response" where
  "json kvs = \<lparr>status = 200, body = Json kvs\<rparr>"

definition status_json :: "nat \<Rightarrow> (string \<times> jv) list \<Rightarrow> response" where
  "status_json c kvs = \<lparr>status = c, body = Json kvs\<rparr>"

text \<open>
  Every handler wraps its work in \<^verbatim>\<open>try\<close>; the \<^verbatim>\<open>catch\<close> block writes the error to
  the console and answers. A \<^verbatim>\<open>try\<close> block is a value \<open>Inl m\<close> when an error with message
  \<open>m\<close> was thrown and \<open>Inr r\<close> when it answered \<open>r\<close>. The console output of a handler is
  the list of the error messages it reports; its informational lines are left out.
\<close>

definition catching :: "(string \<Rightarrow> response) \<Rightarrow> string + response \<Rightarrow> response \<times> string list" where
  "catching h t = (case t of Inl m \<Rightarrow> (h m, [m]) | Inr r \<Rightarrow> (r, []))"

definition catching_with ::
  "(string \<Rightarrow> response) \<Rightarrow> (string + response) \<times> db \<Rightarrow> response \<times> db \<times> string list" where
  "catching_with h t =
     (case t of (Inl m, d) \<Rightarrow> (h m, d, [m]) | (Inr r, d) \<Rightarrow> (r, d, []))"

text \<open>The catch block of most admin controllers: \<^verbatim>\<open>res.json({success:false, message:error.message})\<close>.\<close>

definition catch_message :: "string \<Rightarrow> response" where
  "catch_message m = json [(''success'', JBool False), (''message'', JStr m)]"

section \<open>Admin controllers\<close>

subsection \<open>allDoctors\<close>

text \<open>\<^verbatim>\<open>select("-password")\<close> drops the password field from a document.\<close>

definition select_minus_password :: "doctor \<Rightarrow> doctor" where
  "select_minus_password d = d\<lparr>password := None\<rparr>"

definition allDoctors_try :: "faults \<Rightarrow> db \<Rightarrow> string + response" where
  "allDoctors_try f d =
     (case f 0 of
        Some m \<Rightarrow> Inl m
      | None \<Rightarrow>
          Inr (json [(''success'', JBool True),
                     (''doctors'', JDoctors (map select_minus_password (doctors d)))]))"

definition allDoctors :: "faults \<Rightarrow> db \<Rightarrow> response \<times> string list" where
  "allDoctors f d = catching catch_message (allDoctors_try f d)"

subsection \<open>appointmentsAdmin\<close>

definition appointmentsAdmin_try :: "faults \<Rightarrow> db \<Rightarrow> string + response" where
  "appointmentsAdmin_try f d =
     (case f 0 of
        Some m \<Rightarrow> Inl m
      | None \<Rightarrow>
          Inr (json [(''success'', JBool True),
                     (''appointments'', JAppointments (appointments d))]))"

definition appointmentsAdmin :: "faults \<Rightarrow> db \<Rightarrow> response \<times> string list" where
  "appointmentsAdmin f d = catching catch_message (appointmentsAdmin_try f d)"

subsection \<open>adminDashboard\<close>

text \<open>
  Three queries, then the counts and \<^verbatim>\<open>appointments.reverse().slice(0, 5)\<close>.
\<close>

definition dashData :: "db \<Rightarrow> (string \<times> jv) list" where
  "dashData d =
     [(''doctors'', JNum (int (length (doctors d)))),
      (''appointments'', JNum (int (length (appointments d)))),
      (''patients'', JNum (int (length (users d)))),
      (''latestAppointments'', JAppointments (take 5 (rev (appointments d))))]"

definition adminDashboard_try :: "faults \<Rightarrow> db \<Rightarrow> string + response" where
  "adminDashboard_try f d =
     (case f 0 of
        Some m \<Rightarrow> Inl m
      | None \<Rightarrow>
     (case f 1 of
        Some m \<Rightarrow> Inl m
      | None \<Rightarrow>
     (case f 2 of
        Some m \<Rightarrow> Inl m
      | None \<Rightarrow> Inr (json [(''success'', JBool True), (''dashData'', JObj (dashData d))]))))"

definition adminDashboard :: "faults \<Rightarrow> db \<Rightarrow> response \<times> string list" where
  "adminDashboard f d = catching catch_message (adminDashboard_try f d)"

subsection \<open>appointmentCancel\<close>

record cancel_request =
  body_userId :: "string option"
  body_appointmentId :: "string option"

text \<open>
  \<^verbatim>\<open>slots_booked\<close> is a plain object: its own properties are the dates, each with its
  array of times, and it inherits the properties of \<^verbatim>\<open>Object.prototype\<close>. Reading
  \<^verbatim>\<open>slots_booked[slotDate]\<close> gives the array of an own property; for a name that only
  \<^verbatim>\<open>Object.prototype\<close> has it gives the inherited value, a function or the prototype
  itself, which is truthy and has no \<^verbatim>\<open>filter\<close>; for any other name it gives
  \<^verbatim>\<open>undefined\<close>.
\<close>

definition object_prototype_keys :: "string list" where
  "object_prototype_keys =
     [''constructor'', ''__defineGetter__'', ''__defineSetter__'', ''hasOwnProperty'',
      ''__lookupGetter__'', ''__lookupSetter__'', ''isPrototypeOf'', ''propertyIsEnumerable'',
      ''toString'', ''valueOf'', ''__proto__'', ''toLocaleString'']"

datatype property = Undefined | Own "string list" | Inherited

definition get_property :: "(string \<rightharpoonup> string list) \<Rightarrow> string \<Rightarrow> property" where
  "get_property obj k =
     (case obj k of
        Some ts \<Rightarrow> Own ts
      | None \<Rightarrow> if k \<in> set object_prototype_keys then Inherited else Undefined)"

text \<open>
  The slot release: \<^verbatim>\<open>slots_booked = doctorData.slots_booked || {}\<close>, then the array of the
  appointment's date, when there is one, loses every entry equal to the appointment's
  time. On an inherited value the call of \<^verbatim>\<open>filter\<close> throws a TypeError.
\<close>

definition slots_of :: "doctor \<Rightarrow> (string \<rightharpoonup> string list)" where
  "slots_of dr = (case slots_booked dr of None \<Rightarrow> Map.empty | Some m \<Rightarrow> m)"

definition release_slot ::
  "(string \<rightharpoonup> string list) \<Rightarrow> string \<Rightarrow> string \<Rightarrow> string + (string \<rightharpoonup> string list)" where
  "release_slot slots sd st =
     (case get_property slots sd of
        Undefined \<Rightarrow> Inr slots
      | Own ts \<Rightarrow> Inr (slots(sd \<mapsto> filter (\<lambda>e. e \<noteq> st) ts))
      | Inherited \<Rightarrow> Inl ''slots_booked[slotDate].filter is not a function'')"

text \<open>
  The awaited calls, in order: 0 the appointment lookup, 1 the write of the cancelled flag,
  2 the doctor lookup, 3 the write of the doctor's slots. The identifiers are compared as
  strings (\<^verbatim>\<open>toString()\<close> of a string is itself).
\<close>

definition appointmentCancel_try ::
  "faults \<Rightarrow> db \<Rightarrow> cancel_request \<Rightarrow> (string + response) \<times> db" where
  "appointmentCancel_try f d rq =
     (if \<not> truthy (body_userId rq) \<or> \<not> truthy (body_appointmentId rq) then
        (Inr (status_json 400
           [(''success'', JBool False), (''message'', JStr ''Missing userId or appointmentId'')]), d)
      else
        let uid = the (body_userId rq); aid = the (body_appointmentId rq) in
        (case f 0 of
           Some m \<Rightarrow> (Inl m, d)
         | None \<Rightarrow>
        (case findById aid (appointments d) of
           None \<Rightarrow>
             (Inr (status_json 404
                [(''success'', JBool False), (''message'', JStr ''Appointment not found'')]), d)
         | Some appointmentData \<Rightarrow>
             if \<not> truthy (userId appointmentData) then
               (Inr (status_json 500
                  [(''success'', JBool False),
                   (''message'', JStr ''Appointment data is corrupted'')]), d)
             else if the (userId appointmentData) \<noteq> uid then
               (Inr (status_json 403
                  [(''success'', JBool False), (''message'', JStr ''Unauthorized Action'')]), d)
             else
               (case f 1 of
                  Some m \<Rightarrow> (Inl m, d)
                | None \<Rightarrow>
                    let d1 = d\<lparr>appointments :=
                               updateById aid (\<lambda>a. a\<lparr>cancelled := True\<rparr>) (appointments d)\<rparr> in
                    (case f 2 of
                       Some m \<Rightarrow> (Inl m, d1)
                     | None \<Rightarrow>
                    (case findById (docId appointmentData) (doctors d1) of
                       None \<Rightarrow>
                         (Inr (status_json 404
                            [(''success'', JBool False), (''message'', JStr ''Doctor not found'')]),
                          d1)
                     | Some doctorData \<Rightarrow>
                         (case release_slot (slots_of doctorData)
                                 (slotDate appointmentData) (slotTime appointmentData) of
                            Inl m \<Rightarrow> (Inl m, d1)
                          | Inr slots \<Rightarrow>
                         (case f 3 of
                            Some m \<Rightarrow> (Inl m, d1)
                          | None \<Rightarrow>
                              (Inr (json [(''success'', JBool True),
                                          (''message'', JStr ''Appointment Cancelled'')]),
                               d1\<lparr>doctors :=
                                    updateById (docId appointmentData)
                                      (\<lambda>x. x\<lparr>slots_booked := Some slots\<rparr>) (doctors d1)\<rparr>)))))))))"

definition appointmentCancel_catch :: "string \<Rightarrow> response" where
  "appointmentCancel_catch m =
     status_json 500 [(''success'', JBool False), (''message'', JStr m)]"

definition appointmentCancel ::
  "faults \<Rightarrow> db \<Rightarrow> cancel_request \<Rightarrow> response \<times> db \<times> string list" where
  "appointmentCancel f d rq = catching_with appointmentCancel_catch (appointmentCancel_try f d rq)"

section \<open>The payment webhook\<close>

text \<open>
  The sources hold two server files, each with a handler of \<^verbatim>\<open>POST /webhook\<close>: the one
  its file calls the enhanced webhook handler, and a plainer one. Both are modelled.
  \<^verbatim>\<open>stripe.webhooks.constructEvent\<close> belongs to the payment provider and is a parameter:
  from the raw body, the signature header and the secret it gives the event, or throws.
\<close>

record session =
  session_id :: string
  metadata :: "(string \<times> string) list option"

record event =
  event_type :: string
  data_object :: session

record webhook_request =
  raw_body :: string
  stripe_signature :: "string option"

record env =
  STRIPE_WEBHOOK_SECRET :: "string option"
  NODE_ENV :: "string option"
  ADMIN_EMAIL :: "string option"
  ADMIN_PASSWORD :: "string option"
  JWT_SECRET :: "string option"

type_synonym constructEvent = "string \<Rightarrow> string option \<Rightarrow> string option \<Rightarrow> string + event"

definition received :: response where
  "received = json [(''received'', JBool True)]"

definition webhook_error :: "string \<Rightarrow> response" where
  "webhook_error m = \<lparr>status = 400, body = Send (''Webhook Error: '' @ m)\<rparr>"

text \<open>Reading a property of \<^verbatim>\<open>null\<close> throws a TypeError with this message.\<close>

definition null_property :: "string \<Rightarrow> string" where
  "null_property p =
     ''Cannot read properties of null (reading '' @ [CHR 0x27] @ p @ [CHR 0x27] @ '')''"

definition set_payment :: "appointment \<Rightarrow> appointment" where
  "set_payment a = a\<lparr>payment := True\<rparr>"

text \<open>
  \<^verbatim>\<open>findByIdAndUpdate(id, update, {new: true})\<close>: the updated document, or null, and the
  collection afterwards.
\<close>

definition findByIdAndUpdate ::
  "string \<Rightarrow> ('a document_scheme \<Rightarrow> 'a document_scheme) \<Rightarrow> ('a document_scheme) list
    \<Rightarrow> 'a document_scheme option \<times> ('a document_scheme) list" where
  "findByIdAndUpdate i g xs = (map_option g (findById i xs), updateById i g xs)"

subsection \<open>The enhanced handler\<close>

definition verify_enhanced :: "constructEvent \<Rightarrow> env \<Rightarrow> webhook_request \<Rightarrow> string + event" where
  "verify_enhanced ce e rq =
     (let webhookSecret = STRIPE_WEBHOOK_SECRET e in
      if \<not> truthy webhookSecret then Inl ''Missing Stripe webhook secret''
      else ce (raw_body rq) (stripe_signature rq) webhookSecret)"

definition handle_enhanced_try :: "faults \<Rightarrow> db \<Rightarrow> event \<Rightarrow> (string + response) \<times> db" where
  "handle_enhanced_try f d ev =
     (if event_type ev = ''checkout.session.completed'' then
        (case metadata (data_object ev) of
           None \<Rightarrow> (Inl (null_property ''appointmentId''), d)
         | Some md \<Rightarrow>
             let appointmentId = map_of md ''appointmentId'' in
             if \<not> truthy appointmentId then
               (Inl ''No appointmentId found in session metadata'', d)
             else
               (case f 0 of
                  Some m \<Rightarrow> (Inl m, d)
                | None \<Rightarrow>
                    (case findByIdAndUpdate (the appointmentId) set_payment (appointments d) of
                       (None, as) \<Rightarrow>
                         (Inl (''Appointment '' @ the appointmentId @ '' not found''),
                          d\<lparr>appointments := as\<rparr>)
                     | (Some updatedAppointment, as) \<Rightarrow>
                         (Inr received, d\<lparr>appointments := as\<rparr>))))
      else (Inr received, d))"

definition handle_enhanced_catch :: "string \<Rightarrow> response" where
  "handle_enhanced_catch m = json [(''received'', JBool True), (''error'', JStr m)]"

definition webhook_enhanced ::
  "constructEvent \<Rightarrow> env \<Rightarrow> faults \<Rightarrow> db \<Rightarrow> webhook_request \<Rightarrow> response \<times> db \<times> string list" where
  "webhook_enhanced ce e f d rq =
     (case verify_enhanced ce e rq of
        Inl err \<Rightarrow> (webhook_error err, d, [err])
      | Inr ev \<Rightarrow> catching_with handle_enhanced_catch (handle_enhanced_try f d ev))"

subsection \<open>The plain handler\<close>

text \<open>
  Its inner \<^verbatim>\<open>try\<close> holds the update alone; the metadata is read before it. The result
  \<open>Inl m\<close> is an error that leaves the handler uncaught, so that the handler sends no
  response. An identifier that is \<^verbatim>\<open>undefined\<close> names no stored document.
\<close>

definition update_payment_basic :: "faults \<Rightarrow> db \<Rightarrow> string option \<Rightarrow> db \<times> string list" where
  "update_payment_basic f d appointmentId =
     (case f 0 of
        Some m \<Rightarrow> (d, [m])
      | None \<Rightarrow>
          (case appointmentId of
             None \<Rightarrow> (d, [''Appointment undefined not found''])
           | Some aid \<Rightarrow>
               (case findByIdAndUpdate aid set_payment (appointments d) of
                  (None, as) \<Rightarrow>
                    (d\<lparr>appointments := as\<rparr>, [''Appointment '' @ aid @ '' not found''])
                | (Some updatedAppointment, as) \<Rightarrow> (d\<lparr>appointments := as\<rparr>, []))))"

definition webhook_basic ::
  "constructEvent \<Rightarrow> env \<Rightarrow> faults \<Rightarrow> db \<Rightarrow> webhook_request
    \<Rightarrow> (string + response) \<times> db \<times> string list" where
  "webhook_basic ce e f d rq =
     (case ce (raw_body rq) (stripe_signature rq) (STRIPE_WEBHOOK_SECRET e) of
        Inl err \<Rightarrow> (Inr (webhook_error err), d, [err])
      | Inr ev \<Rightarrow>
          if event_type ev = ''checkout.session.completed'' then
            (case metadata (data_object ev) of
               None \<Rightarrow> (Inl (null_property ''appointmentId''), d, [])
             | Some md \<Rightarrow>
                 (case update_payment_basic f d (map_of md ''appointmentId'') of
                    (d', lg) \<Rightarrow> (Inr received, d', lg)))
          else (Inr received, d, []))"

section \<open>The checkout-session endpoint\<close>

text \<open>
  \<^verbatim>\<open>stripe.checkout.sessions.create\<close> belongs to the payment provider and is a parameter:
  from the session configuration it gives the identifier of the new session, or throws.
\<close>

record checkout_request =
  checkout_appointmentId :: "string option"
  origin :: "string option"

record sessionConfig =
  currency :: string
  product_name :: string
  unit_amount :: nat
  quantity :: nat
  mode :: string
  success_url :: string
  cancel_url :: string
  metadata_appointmentId :: "string option"

type_synonym sessions_create = "sessionConfig \<Rightarrow> string + string"

definition checkout_config :: "string \<Rightarrow> string option \<Rightarrow> sessionConfig" where
  "checkout_config baseUrl appointmentId =
     \<lparr>currency = ''usd'', product_name = ''Appointment Booking'', unit_amount = 5000,
      quantity = 1, mode = ''payment'',
      success_url = baseUrl @ ''/success?session_id={CHECKOUT_SESSION_ID}'',
      cancel_url = baseUrl @ ''/cancel'',
      metadata_appointmentId = appointmentId\<rparr>"

definition checkout_catch :: "string \<Rightarrow> response" where
  "checkout_catch m = status_json 500 [(''success'', JBool False), (''error'', JStr m)]"

definition checkout_answer :: "string + string \<Rightarrow> string + response" where
  "checkout_answer s =
     (case s of
        Inl m \<Rightarrow> Inl m
      | Inr sid \<Rightarrow> Inr (json [(''success'', JBool True), (''sessionId'', JStr sid)]))"

subsection \<open>In the file of the enhanced webhook handler\<close>

definition checkout_enhanced_try :: "env \<Rightarrow> sessions_create \<Rightarrow> checkout_request \<Rightarrow> string + response" where
  "checkout_enhanced_try e create rq =
     (let appointmentId = checkout_appointmentId rq in
      if \<not> truthy appointmentId then Inl ''Missing appointmentId in request body''
      else
        let baseUrl =
              (if NODE_ENV e = Some ''production''
               then ''https://doctor-appointment-frontend-eta.vercel.app''
               else if truthy (origin rq) then the (origin rq) else ''http://localhost:5173'')
        in checkout_answer (create (checkout_config baseUrl appointmentId)))"

definition checkout_enhanced ::
  "env \<Rightarrow> sessions_create \<Rightarrow> checkout_request \<Rightarrow> response \<times> string list" where
  "checkout_enhanced e create rq = catching checkout_catch (checkout_enhanced_try e create rq)"

subsection \<open>In the file of the plain webhook handler\<close>

definition checkout_basic_try :: "sessions_create \<Rightarrow> checkout_request \<Rightarrow> string + response" where
  "checkout_basic_try create rq =
     (let appointmentId = checkout_appointmentId rq;
          baseUrl = (if truthy (origin rq) then the (origin rq) else ''http://localhost:5173'')
      in checkout_answer (create (checkout_config baseUrl appointmentId)))"

definition checkout_basic :: "sessions_create \<Rightarrow> checkout_request \<Rightarrow> response \<times> string list" where
  "checkout_basic create rq = catching checkout_catch (checkout_basic_try create rq)"

section \<open>loginAdmin\<close>

text \<open>
  \<^verbatim>\<open>jwt.sign\<close> is a parameter: from the payload and the secret it gives the token, or
  throws. The payload is \<^verbatim>\<open>email + password\<close>; with both operands \<^verbatim>\<open>undefined\<close> that
  sum is the number NaN, otherwise it is the concatenation of the operands as strings.
\<close>

record login_request =
  login_email :: "string option"
  login_password :: "string option"

definition js_string :: "string option \<Rightarrow> string" where
  "js_string v = (case v of None \<Rightarrow> ''undefined'' | Some s \<Rightarrow> s)"

definition js_plus :: "string option \<Rightarrow> string option \<Rightarrow> jsvalue" where
  "js_plus a b =
     (if a = None \<and> b = None then JNaN else JString (js_string a @ js_string b))"

type_synonym jwt_sign = "jsvalue \<Rightarrow> string option \<Rightarrow> string + string"

definition loginAdmin_try :: "env \<Rightarrow> jwt_sign \<Rightarrow> login_request \<Rightarrow> string + response" where
  "loginAdmin_try e sign rq =
     (if login_email rq = ADMIN_EMAIL e \<and> login_password rq = ADMIN_PASSWORD e then
        (case sign (js_plus (login_email rq) (login_password rq)) (JWT_SECRET e) of
           Inl m \<Rightarrow> Inl m
         | Inr token \<Rightarrow> Inr (json [(''success'', JBool True), (''token'', JStr token)]))
      else Inr (json [(''success'', JBool False), (''message'', JStr ''Invalid credentials'')]))"

definition loginAdmin :: "env \<Rightarrow> jwt_sign \<Rightarrow> login_request \<Rightarrow> response \<times> string list" where
  "loginAdmin e sign rq = catching catch_message (loginAdmin_try e sign rq)"

section \<open>addDoctor\<close>

text \<open>
  \<^verbatim>\<open>cleanQuotes\<close> leaves a value that is not a string as it is; from a string it removes
  one double quote at the start and one at the end (the global replacement of
  \<^verbatim>\<open>/^"|"$/\<close>) and then trims white space at both ends. What \<^verbatim>\<open>trim\<close> removes are
  the code units of white space and of line terminators: TAB, LF, VT, FF, CR, SPACE,
  U+00A0, U+1680, U+2000 to U+200A, U+2028, U+2029, U+202F, U+205F, U+3000 and U+FEFF.
\<close>

definition dquote :: code_unit where
  "dquote = 0x22"

definition strip_quotes :: "jsstring \<Rightarrow> jsstring" where
  "strip_quotes s =
     (let s1 = (case s of [] \<Rightarrow> [] | c # cs \<Rightarrow> if c = dquote then cs else s)
      in if s1 \<noteq> [] \<and> last s1 = dquote then butlast s1 else s1)"

definition white_space :: "code_unit \<Rightarrow> bool" where
  "white_space u =
     (u \<in> set [0x0009, 0x000A, 0x000B, 0x000C, 0x000D, 0x0020, 0x00A0, 0x1680, 0x2028, 0x2029,
                0x202F, 0x205F, 0x3000, 0xFEFF]
      \<or> (0x2000 \<le> u \<and> u \<le> 0x200A))"

definition trim :: "jsstring \<Rightarrow> jsstring" where
  "trim s = rev (dropWhile white_space (rev (dropWhile white_space s)))"

definition cleanQuotes :: "jsstring option \<Rightarrow> jsstring option" where
  "cleanQuotes v = (case v of None \<Rightarrow> None | Some s \<Rightarrow> Some (trim (strip_quotes s)))"

record addDoctor_request =
  body_name :: "jsstring option"
  body_email :: "jsstring option"
  body_password :: "jsstring option"
  body_speciality :: "jsstring option"
  body_degree :: "jsstring option"
  body_experience :: "jsstring option"
  body_about :: "jsstring option"
  body_fees :: "jsstring option"
  body_address :: "jsstring option"
  file_filename :: "string option"

text \<open>
  What the controller takes from outside: the e-mail check of the validator library, the
  salt and the hash of bcrypt, the address of the image at the image host, the JSON
  parser (\<open>Inl m\<close> when it throws a SyntaxError with message \<open>m\<close>), \<^verbatim>\<open>Number\<close>, the
  clock, and the identifier the database gives the new document.
\<close>

record platform =
  isEmail :: "jsstring \<Rightarrow> bool"
  genSalt :: string
  bcrypt_hash :: "jsstring \<Rightarrow> string \<Rightarrow> string"
  secure_url :: "string \<Rightarrow> string"
  JSON_parse :: "jsstring \<Rightarrow> string + jsvalue"
  Number :: "jsstring \<Rightarrow> jsvalue"
  Date_now :: nat
  ObjectId :: string

definition bad_request :: "string \<Rightarrow> (string \<times> jv) list \<Rightarrow> response" where
  "bad_request m extra =
     status_json 400 ([(''success'', JBool False), (''message'', JStr m)] @ extra)"

definition required_fields :: "addDoctor_request \<Rightarrow> (string \<times> jsstring option) list" where
  "required_fields rq =
     [(''name'', cleanQuotes (body_name rq)),
      (''email'', cleanQuotes (body_email rq)),
      (''password'', cleanQuotes (body_password rq)),
      (''speciality'', cleanQuotes (body_speciality rq)),
      (''degree'', cleanQuotes (body_degree rq)),
      (''experience'', cleanQuotes (body_experience rq)),
      (''about'', cleanQuotes (body_about rq)),
      (''fees'', cleanQuotes (body_fees rq)),
      (''address'', body_address rq)]"

definition doctorData :: "platform \<Rightarrow> addDoctor_request \<Rightarrow> jsvalue \<Rightarrow> doctor" where
  "doctorData p rq parsedAddress =
     \<lparr>ident = ObjectId p,
      name = the (cleanQuotes (body_name rq)),
      email = the (cleanQuotes (body_email rq)),
      image_url = secure_url p (the (file_filename rq)),
      password = Some (bcrypt_hash p (the (cleanQuotes (body_password rq))) (genSalt p)),
      speciality = the (cleanQuotes (body_speciality rq)),
      degree = the (cleanQuotes (body_degree rq)),
      experience = the (cleanQuotes (body_experience rq)),
      about = the (cleanQuotes (body_about rq)),
      fees = Number p (the (cleanQuotes (body_fees rq))),
      address = parsedAddress,
      date = Date_now p,
      slots_booked = None\<rparr>"

text \<open>
  The awaited calls, in order: 0 the lookup by e-mail, 1 the salt, 2 the hash, 3 the
  upload to the image host, 4 the save (which also throws when the schema refuses the
  document). Every \<open>the\<close> below is behind the check that its field is truthy. The
  removal of the local copy of the image reports its error to a callback and changes
  nothing modelled here. The parse of the address has a \<^verbatim>\<open>try\<close> of its own, whose
  \<^verbatim>\<open>catch\<close> answers 400 and writes nothing to the console.
\<close>

definition parse_address :: "platform \<Rightarrow> jsstring \<Rightarrow> response + jsvalue" where
  "parse_address p received_address =
     (case JSON_parse p received_address of
        Inl syntax_error \<Rightarrow>
          Inl (bad_request ''Invalid address format. Please provide a valid JSON object''
                 [(''receivedAddress'', JText received_address)])
      | Inr parsedAddress \<Rightarrow> Inr parsedAddress)"

definition addDoctor_try ::
  "platform \<Rightarrow> faults \<Rightarrow> db \<Rightarrow> addDoctor_request \<Rightarrow> (string + response) \<times> db" where
  "addDoctor_try p f d rq =
     (if file_filename rq = None then (Inr (bad_request ''Image file is required'' []), d)
      else if \<exists>kv \<in> set (required_fields rq). \<not> truthy (snd kv) then
        (Inr (bad_request ''Missing Details''
           [(''received'',
             JObj (map (\<lambda>kv. (fst kv, JBool (truthy (snd kv)))) (required_fields rq)))]), d)
      else
        let email = the (cleanQuotes (body_email rq));
            password = the (cleanQuotes (body_password rq));
            address = the (body_address rq)
        in
        if \<not> isEmail p email then
          (Inr (bad_request ''Please enter a valid email'' [(''receivedEmail'', JText email)]), d)
        else if length password < 8 then
          (Inr (bad_request ''Password must be at least 8 characters long'' []), d)
        else
          (case f 0 of
             Some m \<Rightarrow> (Inl m, d)
           | None \<Rightarrow>
          (case find (\<lambda>x. doctor.email x = email) (doctors d) of
             Some existingDoctor \<Rightarrow>
               (Inr (bad_request ''Doctor with this email already exists'' []), d)
           | None \<Rightarrow>
          (case f 1 of
             Some m \<Rightarrow> (Inl m, d)
           | None \<Rightarrow>
          (case f 2 of
             Some m \<Rightarrow> (Inl m, d)
           | None \<Rightarrow>
          (case f 3 of
             Some m \<Rightarrow> (Inl m, d)
           | None \<Rightarrow>
          (case parse_address p address of
             Inl invalid_address \<Rightarrow> (Inr invalid_address, d)
           | Inr parsedAddress \<Rightarrow>
          (case f 4 of
             Some m \<Rightarrow> (Inl m, d)
           | None \<Rightarrow>
               let newDoctor = doctorData p rq parsedAddress in
               (Inr (status_json 201
                  [(''success'', JBool True),
                   (''message'', JStr ''Doctor added successfully''),
                   (''doctor'',
                    JObj [(''name'', JText (name newDoctor)),
                          (''email'', JText (doctor.email newDoctor)),
                          (''speciality'', JText (speciality newDoctor)),
                          (''image'', JStr (image_url newDoctor))])]),
                d\<lparr>doctors := doctors d @ [newDoctor]\<rparr>)))))))))"

definition addDoctor_catch :: "string \<Rightarrow> response" where
  "addDoctor_catch m =
     status_json 500
       [(''success'', JBool False), (''message'', JStr ''Internal server error''),
        (''error'', JStr m)]"

definition addDoctor ::
  "platform \<Rightarrow> faults \<Rightarrow> db \<Rightarrow> addDoctor_request \<Rightarrow> response \<times> db \<times> string list" where
  "addDoctor p f d rq = catching_with addDoctor_catch (addDoctor_try p f d rq)"

section \<open>The upload middleware\<close>

text \<open>
  The middleware is a configuration of the multer library: a disk storage with a
  destination and a file name, a file filter, and a size limit. \<^verbatim>\<open>path.extname\<close> is a
  parameter. \<open>rnd\<close> is the integer \<^verbatim>\<open>Math.round(Math.random() * 1E9)\<close>, and \<open>now\<close> the
  clock; both are written in decimal.
\<close>

record upload_file =
  fieldname :: string
  originalname :: string
  mimetype :: string
  size_bytes :: nat

definition digit_char :: "nat \<Rightarrow> char" where
  "digit_char n = ''0123456789'' ! n"

function string_of_nat :: "nat \<Rightarrow> string" where
  "string_of_nat n =
     (if n < 10 then [digit_char n] else string_of_nat (n div 10) @ [digit_char (n mod 10)])"
  by pat_completeness auto
termination
  by (relation "measure id") auto

declare string_of_nat.simps [simp del]

definition filename :: "(string \<Rightarrow> string) \<Rightarrow> nat \<Rightarrow> nat \<Rightarrow> upload_file \<Rightarrow> string" where
  "filename extname now rnd file =
     (let uniqueSuffix = string_of_nat now @ ''-'' @ string_of_nat rnd;
          extension = extname (originalname file)
      in fieldname file @ ''-'' @ uniqueSuffix @ extension)"

definition fileFilter :: "upload_file \<Rightarrow> string + bool" where
  "fileFilter file =
     (if prefix ''image/'' (mimetype file) then Inr True
      else Inl ''Not an image! Please upload an image.'')"

definition fileSize :: nat where
  "fileSize = 1024 * 1024 * 5"

record stored_file =
  destination :: string
  stored_filename :: string

text \<open>
  What multer does with this configuration for one file: it asks the filter, refuses a
  file larger than the limit with the error \<^verbatim>\<open>LIMIT_FILE_SIZE\<close>, and lets the storage
  write the file.
\<close>

datatype upload_error = FilterError string | LIMIT_FILE_SIZE

definition upload ::
  "string \<Rightarrow> (string \<Rightarrow> string) \<Rightarrow> nat \<Rightarrow> nat \<Rightarrow> upload_file \<Rightarrow> upload_error + stored_file option" where
  "upload uploadsDir extname now rnd file =
     (case fileFilter file of
        Inl m \<Rightarrow> Inl (FilterError m)
      | Inr accept \<Rightarrow>
          if \<not> accept then Inr None
          else if fileSize < size_bytes file then Inl LIMIT_FILE_SIZE
          else Inr (Some \<lparr>destination = uploadsDir,
                          stored_filename = filename extname now rnd file\<rparr>))"

section \<open>The shape of a failure answer\<close>

text \<open>The body \<^verbatim>\<open>{success:false, message}\<close> that carries the message of an error.\<close>

definition failure_body :: "string \<Rightarrow> body" where
  "failure_body m = Json [(''success'', JBool False), (''message'', JStr m)]"

section \<open>Sample data\<close>

definition sample_appointment :: appointment where
  "sample_appointment =
     \<lparr>ident = ''a1'', userId = Some ''u1'', docId = ''d1'', slotDate = ''2_11_2026'',
      slotTime = ''10:00 AM'', payment = False, cancelled = False\<rparr>"

definition other_appointment :: appointment where
  "other_appointment =
     \<lparr>ident = ''a2'', userId = Some ''u2'', docId = ''d1'', slotDate = ''2_11_2026'',
      slotTime = ''10:30 AM'', payment = False, cancelled = False\<rparr>"

definition sample_slots :: "string \<rightharpoonup> string list" where
  "sample_slots =
     [''2_11_2026'' \<mapsto> [''09:30 AM'', ''10:00 AM'', ''10:30 AM''],
      ''3_11_2026'' \<mapsto> [''10:00 AM'']]"

definition sample_doctor :: doctor where
  "sample_doctor =
     \<lparr>ident = ''d1'', name = utf16 ''Dr. Grey'', email = utf16 ''grey@example.com'',
      image_url = ''https://img.example.com/grey.png'', password = Some ''$2a$10$abcdefgh'',
      speciality = utf16 ''Neurologist'', degree = utf16 ''MBBS'',
      experience = utf16 ''4 Years'', about = utf16 ''About'', fees = JNumber 50,
      address = JObject [(''line1'', JString ''1 Main St'')],
      date = 1730000000000, slots_booked = Some sample_slots\<rparr>"

definition sample_db :: db where
  "sample_db =
     \<lparr>doctors = [sample_doctor], users = [\<lparr>ident = ''u1''\<rparr>, \<lparr>ident = ''u2''\<rparr>],
      appointments = [other_appointment, sample_appointment]\<rparr>"

text \<open>A database whose appointment names a doctor that is not stored.\<close>

definition orphan_db :: db where
  "orphan_db =
     \<lparr>doctors = [], users = [\<lparr>ident = ''u1''\<rparr>], appointments = [sample_appointment]\<rparr>"

definition sample_cancel_request :: cancel_request where
  "sample_cancel_request = \<lparr>body_userId = Some ''u1'', body_appointmentId = Some ''a1''\<rparr>"

definition sample_env :: env where
  "sample_env =
     \<lparr>STRIPE_WEBHOOK_SECRET = Some ''whsec_1'', NODE_ENV = None,
      ADMIN_EMAIL = Some ''admin@example.com'', ADMIN_PASSWORD = Some ''admin-password'',
      JWT_SECRET = None\<rparr>"

definition sample_event :: event where
  "sample_event =
     \<lparr>event_type = ''checkout.session.completed'',
      data_object = \<lparr>session_id = ''cs_1'', metadata = Some [(''appointmentId'', ''a1'')]\<rparr>\<rparr>"

definition refund_event :: event where
  "refund_event =
     \<lparr>event_type = ''charge.refunded'',
      data_object = \<lparr>session_id = ''ch_1'', metadata = Some []\<rparr>\<rparr>"

text \<open>A completed checkout session whose metadata is \<^verbatim>\<open>null\<close>.\<close>

definition bare_event :: event where
  "bare_event =
     \<lparr>event_type = ''checkout.session.completed'',
      data_object = \<lparr>session_id = ''cs_2'', metadata = None\<rparr>\<rparr>"

text \<open>
  A stand-in for the provider's verification: the body is the name of the event, and the
  signature and the secret must be the expected ones.
\<close>

definition sample_constructEvent :: constructEvent where
  "sample_constructEvent payload sig secret =
     (if sig = Some ''v1=good'' \<and> secret = Some ''whsec_1'' then
        (if payload = ''completed'' then Inr sample_event
         else if payload = ''bare'' then Inr bare_event
         else Inr refund_event)
      else Inl ''No signatures found matching the expected signature for payload'')"

definition signed_request :: "string \<Rightarrow> webhook_request" where
  "signed_request payload = \<lparr>raw_body = payload, stripe_signature = Some ''v1=good''\<rparr>"

definition forged_request :: webhook_request where
  "forged_request = \<lparr>raw_body = ''completed'', stripe_signature = Some ''v1=forged''\<rparr>"

definition query_fails :: faults where
  "query_fails = (\<lambda>k. if k = 0 then Some ''connection lost'' else None)"

text \<open>
  Stand-ins for the libraries: an e-mail has an at sign, the hash is the salt followed by
  the length of the password, and the one address that parses is \<^verbatim>\<open>{}\<close>.
\<close>

definition sample_platform :: platform where
  "sample_platform =
     \<lparr>isEmail = (\<lambda>s. 0x40 \<in> set s),
      genSalt = ''$2a$10$salt'',
      bcrypt_hash = (\<lambda>pw salt. salt @ string_of_nat (length pw)),
      secure_url = (\<lambda>path. ''https://img.example.com/'' @ path),
      JSON_parse = (\<lambda>s. if s = utf16 ''{}'' then Inr (JObject [])
                         else Inl ''Unexpected token in JSON''),
      Number = (\<lambda>s. if s = utf16 ''50'' then JNumber 50 else JNaN),
      Date_now = 1730000000000,
      ObjectId = ''d2''\<rparr>"

text \<open>
  A request as a form sends it: the name and the password come in double quotes, and the
  password has white space inside the quotes (a space, U+00A0, U+3000, a tab).
\<close>

definition sample_addDoctor_request :: addDoctor_request where
  "sample_addDoctor_request =
     \<lparr>body_name = Some ([0x22] @ utf16 ''Dr. House'' @ [0x22]),
      body_email = Some (utf16 ''house@example.com''),
      body_password = Some ([0x22, 0x20, 0xA0] @ utf16 ''vicodin-123'' @ [0x3000, 0x09, 0x22]),
      body_speciality = Some (utf16 ''Diagnostics''),
      body_degree = Some (utf16 ''MD''), body_experience = Some (utf16 ''9 Years''),
      body_about = Some (utf16 ''About''), body_fees = Some (utf16 ''50''),
      body_address = Some (utf16 ''{}''),
      file_filename = Some ''image-1-2.png''\<rparr>"



text \<open>An appointment whose date is the name of a property of \<^verbatim>\<open>Object.prototype\<close>.\<close>

definition inherited_appointment :: appointment where
  "inherited_appointment =
     \<lparr>ident = ''a3'', userId = Some ''u1'', docId = ''d1'', slotDate = ''constructor'',
      slotTime = ''10:00 AM'', payment = False, cancelled = False\<rparr>"

definition inherited_db :: db where
  "inherited_db =
     \<lparr>doctors = [sample_doctor], users = [\<lparr>ident = ''u1''\<rparr>],
      appointments = [inherited_appointment]\<rparr>"

definition inherited_cancel_request :: cancel_request where
  "inherited_cancel_request = \<lparr>body_userId = Some ''u1'', body_appointmentId = Some ''a3''\<rparr>"

definition sample_upload_file :: upload_file where
  "sample_upload_file =
     \<lparr>fieldname = ''image'', originalname = ''portrait.png'', mimetype = ''image/png'',
      size_bytes = 204800\<rparr>"

definition sample_extname :: "string \<Rightarrow> string" where
  "sample_extname s = (if s = ''portrait.png'' then ''.png'' else [])"

definition sample_checkout_request :: checkout_request where
  "sample_checkout_request =
     \<lparr>checkout_appointmentId = Some ''a1'', origin = Some ''http://localhost:5173''\<rparr>"

definition declining_create :: sessions_create where
  "declining_create cfg = Inl ''Invalid API Key provided''"

definition sample_login_request :: login_request where
  "sample_login_request =
     \<lparr>login_email = Some ''admin@example.com'', login_password = Some ''admin-password''\<rparr>"

definition sample_jwt_sign :: jwt_sign where
  "sample_jwt_sign payload secret =
     (case secret of
        None \<Rightarrow> Inl ''secretOrPrivateKey must have a value''
      | Some k \<Rightarrow> Inr (''token.'' @ k))"

section \<open>Properties\<close>

subsection \<open>Queries\<close>

lemma findById_position:
  "findById i xs = Some a \<Longrightarrow>
     \<exists>k < length xs. xs ! k = a \<and> ident a = i \<and> updateById i g xs = xs[k := g a]"
proof (induction xs)
  case Nil
  then show ?case by simp
next
  case (Cons x xs)
  show ?case
  proof (cases "ident x = i")
    case True
    with Cons.prems have "x = a" by simp
    with True have "(x # xs) ! 0 = a \<and> ident a = i \<and> updateById i g (x # xs) = (x # xs)[0 := g a]"
      by simp
    then show ?thesis by blast
  next
    case False
    with Cons.prems have "findById i xs = Some a" by simp
    from Cons.IH [OF this] obtain k where
      k: "k < length xs" "xs ! k = a" "ident a = i" "updateById i g xs = xs[k := g a]"
      by blast
    with False have
      "Suc k < length (x # xs) \<and> (x # xs) ! Suc k = a \<and> ident a = i
         \<and> updateById i g (x # xs) = (x # xs)[Suc k := g a]"
      by simp
    then show ?thesis by blast
  qed
qed

lemma updateById_absent: "findById i xs = None \<Longrightarrow> updateById i g xs = xs"
  by (induction xs) (auto split: if_splits)

lemma findByIdAndUpdate_found:
  "findById i xs = Some a \<Longrightarrow>
     \<exists>k < length xs. xs ! k = a \<and> findByIdAndUpdate i g xs = (Some (g a), xs[k := g a])"
  using findById_position [of i xs a g] by (auto simp: findByIdAndUpdate_def)

lemma findByIdAndUpdate_absent:
  "findById i xs = None \<Longrightarrow> findByIdAndUpdate i g xs = (None, xs)"
  by (simp add: findByIdAndUpdate_def updateById_absent)

subsection \<open>The password projection\<close>

text \<open>
  C9. The answer of allDoctors holds one document per stored doctor, none of them with a
  password field, and two databases whose doctors differ in their passwords alone get the
  same answer, whether or not the query fails.
\<close>

theorem allDoctors_hides_passwords:
  assumes "list_all2 (\<lambda>x y. y = x\<lparr>password := password y\<rparr>) (doctors d1) (doctors d2)"
  shows "allDoctors f d1 = allDoctors f d2
    \<and> (\<exists>ds. allDoctors no_faults d1 =
               (json [(''success'', JBool True), (''doctors'', JDoctors ds)], [])
          \<and> length ds = length (doctors d1)
          \<and> list_all (\<lambda>x. password x = None) ds)"
proof -
  have "map select_minus_password (doctors d1) = map select_minus_password (doctors d2)"
    using assms
  proof (induction rule: list_all2_induct)
    case Nil
    then show ?case by simp
  next
    case (Cons x xs y ys)
    from Cons.hyps(1) have "y\<lparr>password := None\<rparr> = x\<lparr>password := None\<rparr>"
      by (metis doctor.update_convs(4) doctor.surjective doctor.select_convs)
    then show ?case using Cons by (simp add: select_minus_password_def)
  qed
  then have "allDoctors f d1 = allDoctors f d2"
    by (simp add: allDoctors_def allDoctors_try_def split: option.splits)
  moreover have "list_all (\<lambda>x. password x = None) (map select_minus_password (doctors d1))"
    by (simp add: list_all_iff select_minus_password_def)
  ultimately show ?thesis
    by (simp add: allDoctors_def allDoctors_try_def no_faults_def catching_def json_def)
qed

theorem allDoctors_hides_passwords_witness:
  "allDoctors no_faults sample_db
     = allDoctors no_faults (sample_db\<lparr>doctors := [sample_doctor\<lparr>password := Some ''other''\<rparr>]\<rparr>)
   \<and> (\<exists>ds. allDoctors no_faults sample_db =
              (json [(''success'', JBool True), (''doctors'', JDoctors ds)], [])
         \<and> length ds = length (doctors sample_db)
         \<and> list_all (\<lambda>x. password x = None) ds)"
proof -
  have h: "list_all2 (\<lambda>x y. y = x\<lparr>password := password y\<rparr>) (doctors sample_db)
             (doctors (sample_db\<lparr>doctors := [sample_doctor\<lparr>password := Some ''other''\<rparr>]\<rparr>))"
    by (simp add: sample_db_def sample_doctor_def)
  show ?thesis
    by (rule allDoctors_hides_passwords [OF h])
qed

subsection \<open>The webhook\<close>

lemma handle_enhanced_try_found:
  assumes "event_type ev = ''checkout.session.completed''"
    and "metadata (data_object ev) = Some md"
    and "map_of md ''appointmentId'' = Some aid"
    and "aid \<noteq> []"
    and "f 0 = None"
    and "findById aid (appointments d) = Some a"
  shows "\<exists>k < length (appointments d). appointments d ! k = a \<and>
           handle_enhanced_try f d ev =
             (Inr received, d\<lparr>appointments := (appointments d)[k := a\<lparr>payment := True\<rparr>]\<rparr>)"
proof -
  from findByIdAndUpdate_found [OF assms(6), of set_payment] obtain k where
    k: "k < length (appointments d)" "appointments d ! k = a"
       "findByIdAndUpdate aid set_payment (appointments d)
          = (Some (set_payment a), (appointments d)[k := set_payment a])"
    by blast
  have "handle_enhanced_try f d ev =
          (Inr received, d\<lparr>appointments := (appointments d)[k := a\<lparr>payment := True\<rparr>]\<rparr>)"
    using assms(1-5) k(3) by (simp add: handle_enhanced_try_def truthy_def set_payment_def)
  with k(1,2) show ?thesis by blast
qed

lemma update_payment_basic_found:
  assumes "f 0 = None" and "findById aid (appointments d) = Some a"
  shows "\<exists>k < length (appointments d). appointments d ! k = a \<and>
           update_payment_basic f d (Some aid) =
             (d\<lparr>appointments := (appointments d)[k := a\<lparr>payment := True\<rparr>]\<rparr>, [])"
proof -
  from findByIdAndUpdate_found [OF assms(2), of set_payment] obtain k where
    k: "k < length (appointments d)" "appointments d ! k = a"
       "findByIdAndUpdate aid set_payment (appointments d)
          = (Some (set_payment a), (appointments d)[k := set_payment a])"
    by blast
  have "update_payment_basic f d (Some aid) =
          (d\<lparr>appointments := (appointments d)[k := a\<lparr>payment := True\<rparr>]\<rparr>, [])"
    using assms(1) k(3) by (simp add: update_payment_basic_def set_payment_def)
  with k(1,2) show ?thesis by blast
qed

lemma handle_enhanced_try_unchanged_on_error:
  "handle_enhanced_try f d ev = (Inl m, d') \<Longrightarrow> d' = d"
  by (auto simp: handle_enhanced_try_def findByIdAndUpdate_def updateById_absent Let_def
        split: if_splits option.splits prod.splits)

lemma sample_verification:
  "verify_enhanced sample_constructEvent sample_env (signed_request ''completed'') = Inr sample_event"
  "verify_enhanced sample_constructEvent sample_env (signed_request ''refund'') = Inr refund_event"
  "verify_enhanced sample_constructEvent sample_env forged_request
     = Inl ''No signatures found matching the expected signature for payload''"
  "sample_constructEvent (raw_body (signed_request ''completed''))
     (stripe_signature (signed_request ''completed'')) (STRIPE_WEBHOOK_SECRET sample_env)
     = Inr sample_event"
  "sample_constructEvent (raw_body (signed_request ''refund''))
     (stripe_signature (signed_request ''refund'')) (STRIPE_WEBHOOK_SECRET sample_env)
     = Inr refund_event"
  "sample_constructEvent (raw_body (signed_request ''bare''))
     (stripe_signature (signed_request ''bare'')) (STRIPE_WEBHOOK_SECRET sample_env)
     = Inr bare_event"
  "sample_constructEvent (raw_body forged_request)
     (stripe_signature forged_request) (STRIPE_WEBHOOK_SECRET sample_env)
     = Inl ''No signatures found matching the expected signature for payload''"
  "verify_enhanced sample_constructEvent sample_env (signed_request ''bare'') = Inr bare_event"
  by (simp_all add: verify_enhanced_def sample_constructEvent_def sample_env_def
        signed_request_def forged_request_def truthy_def)

lemma sample_lookup:
  "findById ''a1'' (appointments sample_db) = Some sample_appointment"
  "findById ''a1'' (appointments orphan_db) = Some sample_appointment"
  "findById ''d1'' (doctors sample_db) = Some sample_doctor"
  "findById ''d1'' (doctors orphan_db) = None"
  by (simp_all add: sample_db_def orphan_db_def sample_appointment_def other_appointment_def
        sample_doctor_def)

text \<open>
  C1. In both handlers a failed verification is answered with status 400 and leaves the
  database as it was; the enhanced handler treats a missing secret as a failed
  verification. Conversely, a run that changed the database had its event verified.
\<close>

theorem webhook_updates_only_after_verification:
  "(verify_enhanced ce e rq = Inl err \<longrightarrow>
      webhook_enhanced ce e f d rq = (webhook_error err, d, [err]))
   \<and> (ce (raw_body rq) (stripe_signature rq) (STRIPE_WEBHOOK_SECRET e) = Inl err \<longrightarrow>
      webhook_basic ce e f d rq = (Inr (webhook_error err), d, [err]))
   \<and> status (webhook_error err) = 400
   \<and> (\<not> truthy (STRIPE_WEBHOOK_SECRET e) \<longrightarrow>
        webhook_enhanced ce e f d rq =
          (webhook_error ''Missing Stripe webhook secret'', d, [''Missing Stripe webhook secret'']))
   \<and> (fst (snd (webhook_enhanced ce e f d rq)) \<noteq> d \<longrightarrow>
        (\<exists>ev. verify_enhanced ce e rq = Inr ev))
   \<and> (fst (snd (webhook_basic ce e f d rq)) \<noteq> d \<longrightarrow>
        (\<exists>ev. ce (raw_body rq) (stripe_signature rq) (STRIPE_WEBHOOK_SECRET e) = Inr ev))"
proof -
  have 1: "verify_enhanced ce e rq = Inl err \<longrightarrow>
      webhook_enhanced ce e f d rq = (webhook_error err, d, [err])"
    by (simp add: webhook_enhanced_def)
  have 2: "ce (raw_body rq) (stripe_signature rq) (STRIPE_WEBHOOK_SECRET e) = Inl err \<longrightarrow>
      webhook_basic ce e f d rq = (Inr (webhook_error err), d, [err])"
    by (simp add: webhook_basic_def)
  have 3: "status (webhook_error err) = 400"
    by (simp add: webhook_error_def)
  have 4: "\<not> truthy (STRIPE_WEBHOOK_SECRET e) \<longrightarrow>
        webhook_enhanced ce e f d rq =
          (webhook_error ''Missing Stripe webhook secret'', d, [''Missing Stripe webhook secret''])"
    by (simp add: webhook_enhanced_def verify_enhanced_def)
  have 5: "fst (snd (webhook_enhanced ce e f d rq)) \<noteq> d \<longrightarrow>
        (\<exists>ev. verify_enhanced ce e rq = Inr ev)"
    by (cases "verify_enhanced ce e rq") (auto simp: webhook_enhanced_def)
  have 6: "fst (snd (webhook_basic ce e f d rq)) \<noteq> d \<longrightarrow>
        (\<exists>ev. ce (raw_body rq) (stripe_signature rq) (STRIPE_WEBHOOK_SECRET e) = Inr ev)"
    by (cases "ce (raw_body rq) (stripe_signature rq) (STRIPE_WEBHOOK_SECRET e)")
       (auto simp: webhook_basic_def)
  from 1 2 3 4 5 6 show ?thesis by blast
qed

theorem webhook_updates_only_after_verification_witness:
  "webhook_enhanced sample_constructEvent sample_env no_faults sample_db forged_request
     = (webhook_error ''No signatures found matching the expected signature for payload'',
        sample_db, [''No signatures found matching the expected signature for payload''])
   \<and> webhook_basic sample_constructEvent sample_env no_faults sample_db forged_request
     = (Inr (webhook_error ''No signatures found matching the expected signature for payload''),
        sample_db, [''No signatures found matching the expected signature for payload''])
   \<and> webhook_enhanced sample_constructEvent (sample_env\<lparr>STRIPE_WEBHOOK_SECRET := None\<rparr>)
        no_faults sample_db (signed_request ''completed'')
     = (webhook_error ''Missing Stripe webhook secret'', sample_db,
        [''Missing Stripe webhook secret''])
   \<and> fst (snd (webhook_enhanced sample_constructEvent sample_env no_faults sample_db
                  (signed_request ''completed''))) \<noteq> sample_db
   \<and> (\<exists>ev. verify_enhanced sample_constructEvent sample_env (signed_request ''completed'') = Inr ev)
   \<and> fst (snd (webhook_basic sample_constructEvent sample_env no_faults sample_db
                  (signed_request ''completed''))) \<noteq> sample_db
   \<and> (\<exists>ev. sample_constructEvent (raw_body (signed_request ''completed''))
              (stripe_signature (signed_request ''completed''))
              (STRIPE_WEBHOOK_SECRET sample_env) = Inr ev)"
proof -
  let ?msg = "''No signatures found matching the expected signature for payload''"
  have a: "\<not> truthy (STRIPE_WEBHOOK_SECRET (sample_env\<lparr>STRIPE_WEBHOOK_SECRET := None\<rparr>))"
    by (simp add: truthy_def)
  have b: "fst (snd (webhook_enhanced sample_constructEvent sample_env no_faults sample_db
                  (signed_request ''completed''))) \<noteq> sample_db"
    by (simp add: webhook_enhanced_def sample_verification handle_enhanced_try_def
          sample_event_def truthy_def no_faults_def findByIdAndUpdate_def sample_db_def
          sample_appointment_def other_appointment_def set_payment_def catching_with_def)
  have c: "fst (snd (webhook_basic sample_constructEvent sample_env no_faults sample_db
                  (signed_request ''completed''))) \<noteq> sample_db"
    by (simp add: webhook_basic_def sample_verification update_payment_basic_def
          sample_event_def no_faults_def findByIdAndUpdate_def sample_db_def
          sample_appointment_def other_appointment_def set_payment_def)
  note t1 = webhook_updates_only_after_verification
    [of sample_constructEvent sample_env forged_request ?msg no_faults sample_db]
  note t2 = webhook_updates_only_after_verification
    [of sample_constructEvent "sample_env\<lparr>STRIPE_WEBHOOK_SECRET := None\<rparr>"
        "signed_request ''completed''" ?msg no_faults sample_db]
  note t3 = webhook_updates_only_after_verification
    [of sample_constructEvent sample_env "signed_request ''completed''" ?msg no_faults sample_db]
  from t1 sample_verification(3,7) have
    "webhook_enhanced sample_constructEvent sample_env no_faults sample_db forged_request
       = (webhook_error ?msg, sample_db, [?msg])"
    "webhook_basic sample_constructEvent sample_env no_faults sample_db forged_request
       = (Inr (webhook_error ?msg), sample_db, [?msg])"
    by blast+
  moreover from t2 a have
    "webhook_enhanced sample_constructEvent (sample_env\<lparr>STRIPE_WEBHOOK_SECRET := None\<rparr>)
        no_faults sample_db (signed_request ''completed'')
     = (webhook_error ''Missing Stripe webhook secret'', sample_db,
        [''Missing Stripe webhook secret''])"
    by blast
  moreover from t3 b c have
    "\<exists>ev. verify_enhanced sample_constructEvent sample_env (signed_request ''completed'') = Inr ev"
    "\<exists>ev. sample_constructEvent (raw_body (signed_request ''completed''))
              (stripe_signature (signed_request ''completed''))
              (STRIPE_WEBHOOK_SECRET sample_env) = Inr ev"
    by blast+
  ultimately show ?thesis using b c by blast
qed

text \<open>
  C2. After a verified event of type \<^verbatim>\<open>checkout.session.completed\<close> whose metadata names
  a stored appointment, and with the update not failing, the database differs from the
  one before in one place: the named appointment has \<open>payment\<close> true. After a verified
  event of any other type the database is the one before. This holds for both handlers;
  the enhanced one asks for a non-empty identifier, as every stored identifier is.
\<close>

theorem webhook_sets_payment_only:
  "(verify_enhanced ce e rq = Inr ev \<and> event_type ev = ''checkout.session.completed''
      \<and> metadata (data_object ev) = Some md \<and> map_of md ''appointmentId'' = Some aid
      \<and> aid \<noteq> [] \<and> findById aid (appointments d) = Some a \<and> f 0 = None \<longrightarrow>
      (\<exists>k < length (appointments d). appointments d ! k = a \<and>
         webhook_enhanced ce e f d rq =
           (received, d\<lparr>appointments := (appointments d)[k := a\<lparr>payment := True\<rparr>]\<rparr>, [])))
   \<and> (ce (raw_body rq) (stripe_signature rq) (STRIPE_WEBHOOK_SECRET e) = Inr ev
      \<and> event_type ev = ''checkout.session.completed''
      \<and> metadata (data_object ev) = Some md \<and> map_of md ''appointmentId'' = Some aid
      \<and> findById aid (appointments d) = Some a \<and> f 0 = None \<longrightarrow>
      (\<exists>k < length (appointments d). appointments d ! k = a \<and>
         webhook_basic ce e f d rq =
           (Inr received, d\<lparr>appointments := (appointments d)[k := a\<lparr>payment := True\<rparr>]\<rparr>, [])))
   \<and> (verify_enhanced ce e rq = Inr ev \<and> event_type ev \<noteq> ''checkout.session.completed'' \<longrightarrow>
        webhook_enhanced ce e f d rq = (received, d, []))
   \<and> (ce (raw_body rq) (stripe_signature rq) (STRIPE_WEBHOOK_SECRET e) = Inr ev
        \<and> event_type ev \<noteq> ''checkout.session.completed'' \<longrightarrow>
        webhook_basic ce e f d rq = (Inr received, d, []))"
proof (intro conjI impI)
  assume h: "verify_enhanced ce e rq = Inr ev \<and> event_type ev = ''checkout.session.completed''
      \<and> metadata (data_object ev) = Some md \<and> map_of md ''appointmentId'' = Some aid
      \<and> aid \<noteq> [] \<and> findById aid (appointments d) = Some a \<and> f 0 = None"
  then obtain k where "k < length (appointments d)" "appointments d ! k = a"
    "handle_enhanced_try f d ev =
       (Inr received, d\<lparr>appointments := (appointments d)[k := a\<lparr>payment := True\<rparr>]\<rparr>)"
    using handle_enhanced_try_found [of ev md aid f d a] by blast
  with h show "\<exists>k < length (appointments d). appointments d ! k = a \<and>
         webhook_enhanced ce e f d rq =
           (received, d\<lparr>appointments := (appointments d)[k := a\<lparr>payment := True\<rparr>]\<rparr>, [])"
    by (auto simp: webhook_enhanced_def catching_with_def)
next
  assume h: "ce (raw_body rq) (stripe_signature rq) (STRIPE_WEBHOOK_SECRET e) = Inr ev
      \<and> event_type ev = ''checkout.session.completed''
      \<and> metadata (data_object ev) = Some md \<and> map_of md ''appointmentId'' = Some aid
      \<and> findById aid (appointments d) = Some a \<and> f 0 = None"
  then obtain k where "k < length (appointments d)" "appointments d ! k = a"
    "update_payment_basic f d (Some aid) =
       (d\<lparr>appointments := (appointments d)[k := a\<lparr>payment := True\<rparr>]\<rparr>, [])"
    using update_payment_basic_found [of f aid d a] by blast
  with h show "\<exists>k < length (appointments d). appointments d ! k = a \<and>
         webhook_basic ce e f d rq =
           (Inr received, d\<lparr>appointments := (appointments d)[k := a\<lparr>payment := True\<rparr>]\<rparr>, [])"
    by (auto simp: webhook_basic_def)
next
  assume "verify_enhanced ce e rq = Inr ev \<and> event_type ev \<noteq> ''checkout.session.completed''"
  then show "webhook_enhanced ce e f d rq = (received, d, [])"
    by (simp add: webhook_enhanced_def handle_enhanced_try_def catching_with_def)
next
  assume "ce (raw_body rq) (stripe_signature rq) (STRIPE_WEBHOOK_SECRET e) = Inr ev
        \<and> event_type ev \<noteq> ''checkout.session.completed''"
  then show "webhook_basic ce e f d rq = (Inr received, d, [])"
    by (simp add: webhook_basic_def)
qed

theorem webhook_sets_payment_only_witness:
  "(\<exists>k < length (appointments sample_db). appointments sample_db ! k = sample_appointment \<and>
      webhook_enhanced sample_constructEvent sample_env no_faults sample_db
          (signed_request ''completed'') =
        (received,
         sample_db\<lparr>appointments :=
           (appointments sample_db)[k := sample_appointment\<lparr>payment := True\<rparr>]\<rparr>, []))
   \<and> (\<exists>k < length (appointments sample_db). appointments sample_db ! k = sample_appointment \<and>
      webhook_basic sample_constructEvent sample_env no_faults sample_db
          (signed_request ''completed'') =
        (Inr received,
         sample_db\<lparr>appointments :=
           (appointments sample_db)[k := sample_appointment\<lparr>payment := True\<rparr>]\<rparr>, []))
   \<and> webhook_enhanced sample_constructEvent sample_env no_faults sample_db
        (signed_request ''refund'') = (received, sample_db, [])
   \<and> webhook_basic sample_constructEvent sample_env no_faults sample_db
        (signed_request ''refund'') = (Inr received, sample_db, [])"
proof -
  have e1: "event_type sample_event = ''checkout.session.completed''"
    and e2: "metadata (data_object sample_event) = Some [(''appointmentId'', ''a1'')]"
    and e3: "map_of [(''appointmentId'', ''a1'')] ''appointmentId'' = Some ''a1''"
    and e4: "''a1'' \<noteq> []"
    and e5: "no_faults 0 = None"
    and e6: "event_type refund_event \<noteq> ''checkout.session.completed''"
    by (simp_all add: sample_event_def refund_event_def no_faults_def)
  note t1 = webhook_sets_payment_only
    [of sample_constructEvent sample_env "signed_request ''completed''" sample_event
        "[(''appointmentId'', ''a1'')]" "''a1''" sample_db sample_appointment no_faults]
  note t2 = webhook_sets_payment_only
    [of sample_constructEvent sample_env "signed_request ''refund''" refund_event
        "[(''appointmentId'', ''a1'')]" "''a1''" sample_db sample_appointment no_faults]
  from t1 sample_verification(1,4) sample_lookup(1) e1 e2 e3 e4 e5 have
    "\<exists>k < length (appointments sample_db). appointments sample_db ! k = sample_appointment \<and>
      webhook_enhanced sample_constructEvent sample_env no_faults sample_db
          (signed_request ''completed'') =
        (received,
         sample_db\<lparr>appointments :=
           (appointments sample_db)[k := sample_appointment\<lparr>payment := True\<rparr>]\<rparr>, [])"
    "\<exists>k < length (appointments sample_db). appointments sample_db ! k = sample_appointment \<and>
      webhook_basic sample_constructEvent sample_env no_faults sample_db
          (signed_request ''completed'') =
        (Inr received,
         sample_db\<lparr>appointments :=
           (appointments sample_db)[k := sample_appointment\<lparr>payment := True\<rparr>]\<rparr>, [])"
    by blast+
  moreover from t2 sample_verification(2,5) e6 have
    "webhook_enhanced sample_constructEvent sample_env no_faults sample_db
        (signed_request ''refund'') = (received, sample_db, [])"
    "webhook_basic sample_constructEvent sample_env no_faults sample_db
        (signed_request ''refund'') = (Inr received, sample_db, [])"
    by blast+
  ultimately show ?thesis by blast
qed

subsection \<open>Cancelling an appointment\<close>

lemma release_slot_inherited:
  "get_property slots sd = Inherited \<Longrightarrow>
     release_slot slots sd st = Inl ''slots_booked[slotDate].filter is not a function''"
  by (simp add: release_slot_def)

lemma release_slot_not_inherited:
  assumes "get_property slots sd \<noteq> Inherited"
  shows "\<exists>slots'. release_slot slots sd st = Inr slots'
           \<and> slots' sd = map_option (filter (\<lambda>e. e \<noteq> st)) (slots sd)
           \<and> (\<forall>sd'. sd' \<noteq> sd \<longrightarrow> slots' sd' = slots sd')"
  using assms
  by (cases "slots sd") (auto simp: release_slot_def get_property_def split: if_splits)

text \<open>
  The run of an owner's request up to the doctor lookup: the cancelled flag is written
  first, on its own.
\<close>

lemma appointmentCancel_try_owner:
  assumes "body_userId rq = Some uid" and "uid \<noteq> []"
    and "body_appointmentId rq = Some aid" and "aid \<noteq> []"
    and "findById aid (appointments d) = Some a"
    and "userId a = Some uid"
    and "f 0 = None" and "f 1 = None" and "f 2 = None"
  shows "\<exists>k < length (appointments d). appointments d ! k = a \<and>
     appointmentCancel_try f d rq =
       (let d1 = d\<lparr>appointments := (appointments d)[k := a\<lparr>cancelled := True\<rparr>]\<rparr> in
        case findById (docId a) (doctors d) of
          None \<Rightarrow>
            (Inr (status_json 404
               [(''success'', JBool False), (''message'', JStr ''Doctor not found'')]), d1)
        | Some dr \<Rightarrow>
            (case release_slot (slots_of dr) (slotDate a) (slotTime a) of
               Inl m \<Rightarrow> (Inl m, d1)
             | Inr slots \<Rightarrow>
            (case f 3 of
               Some m \<Rightarrow> (Inl m, d1)
             | None \<Rightarrow>
                 (Inr (json [(''success'', JBool True),
                             (''message'', JStr ''Appointment Cancelled'')]),
                  d1\<lparr>doctors :=
                       updateById (docId a) (\<lambda>x. x\<lparr>slots_booked := Some slots\<rparr>)
                         (doctors d)\<rparr>))))"
proof -
  from findById_position [OF assms(5), of "\<lambda>a. a\<lparr>cancelled := True\<rparr>"] obtain k where
    k: "k < length (appointments d)" "appointments d ! k = a"
       "updateById aid (\<lambda>a. a\<lparr>cancelled := True\<rparr>) (appointments d)
          = (appointments d)[k := a\<lparr>cancelled := True\<rparr>]"
    by blast
  have "appointmentCancel_try f d rq =
       (let d1 = d\<lparr>appointments := (appointments d)[k := a\<lparr>cancelled := True\<rparr>]\<rparr> in
        case findById (docId a) (doctors d) of
          None \<Rightarrow>
            (Inr (status_json 404
               [(''success'', JBool False), (''message'', JStr ''Doctor not found'')]), d1)
        | Some dr \<Rightarrow>
            (case release_slot (slots_of dr) (slotDate a) (slotTime a) of
               Inl m \<Rightarrow> (Inl m, d1)
             | Inr slots \<Rightarrow>
            (case f 3 of
               Some m \<Rightarrow> (Inl m, d1)
             | None \<Rightarrow>
                 (Inr (json [(''success'', JBool True),
                             (''message'', JStr ''Appointment Cancelled'')]),
                  d1\<lparr>doctors :=
                       updateById (docId a) (\<lambda>x. x\<lparr>slots_booked := Some slots\<rparr>)
                         (doctors d)\<rparr>))))"
    using assms k(3)
    by (simp add: appointmentCancel_try_def truthy_def Let_def split: option.splits sum.splits)
  with k(1,2) show ?thesis by blast
qed

lemma sample_cancel:
  "body_userId sample_cancel_request = Some ''u1''"
  "body_appointmentId sample_cancel_request = Some ''a1''"
  "userId sample_appointment = Some ''u1''"
  "docId sample_appointment = ''d1''"
  "slotDate sample_appointment = ''2_11_2026''"
  "slotTime sample_appointment = ''10:00 AM''"
  by (simp_all add: sample_cancel_request_def sample_appointment_def)

text \<open>
  The first write is not undone when the doctor lookup after it throws: the answer is
  the failure answer with status 500, and the appointment stays cancelled.
\<close>

lemma appointmentCancel_no_rollback:
  assumes "body_userId rq = Some uid" and "uid \<noteq> []"
    and "body_appointmentId rq = Some aid" and "aid \<noteq> []"
    and "findById aid (appointments d) = Some a"
    and "userId a = Some uid"
    and "f 0 = None" and "f 1 = None" and "f 2 = Some m"
  shows "\<exists>k < length (appointments d). appointments d ! k = a \<and>
     appointmentCancel f d rq =
       (\<lparr>status = 500, body = failure_body m\<rparr>,
        d\<lparr>appointments := (appointments d)[k := a\<lparr>cancelled := True\<rparr>]\<rparr>, [m])"
proof -
  from findById_position [OF assms(5), of "\<lambda>a. a\<lparr>cancelled := True\<rparr>"] obtain k where
    k: "k < length (appointments d)" "appointments d ! k = a"
       "updateById aid (\<lambda>a. a\<lparr>cancelled := True\<rparr>) (appointments d)
          = (appointments d)[k := a\<lparr>cancelled := True\<rparr>]"
    by blast
  have "appointmentCancel_try f d rq =
          (Inl m, d\<lparr>appointments := (appointments d)[k := a\<lparr>cancelled := True\<rparr>]\<rparr>)"
    using assms k(3) by (simp add: appointmentCancel_try_def truthy_def Let_def)
  then have "appointmentCancel f d rq =
       (\<lparr>status = 500, body = failure_body m\<rparr>,
        d\<lparr>appointments := (appointments d)[k := a\<lparr>cancelled := True\<rparr>]\<rparr>, [m])"
    by (simp add: appointmentCancel_def catching_with_def appointmentCancel_catch_def
          status_json_def failure_body_def)
  with k(1,2) show ?thesis by blast
qed

text \<open>
  C3. The two writes of appointmentCancel are independent. When the request comes from
  the owner of a stored appointment whose \<open>docId\<close> names no stored doctor, the run ends
  with the appointment's cancelled flag set, every doctor document (and so every
  \<open>slots_booked\<close>) as before, and the answer 404 "Doctor not found".
\<close>

theorem appointmentCancel_without_doctor:
  assumes "body_userId rq = Some uid" and "uid \<noteq> []"
    and "body_appointmentId rq = Some aid" and "aid \<noteq> []"
    and "findById aid (appointments d) = Some a"
    and "userId a = Some uid"
    and "findById (docId a) (doctors d) = None"
  shows "\<exists>k < length (appointments d). appointments d ! k = a \<and>
     appointmentCancel no_faults d rq =
       (status_json 404 [(''success'', JBool False), (''message'', JStr ''Doctor not found'')],
        d\<lparr>appointments := (appointments d)[k := a\<lparr>cancelled := True\<rparr>]\<rparr>,
        [])
     \<and> doctors (fst (snd (appointmentCancel no_faults d rq))) = doctors d
     \<and> cancelled (appointments (fst (snd (appointmentCancel no_faults d rq))) ! k)"
proof -
  from appointmentCancel_try_owner [OF assms(1-6), of no_faults] obtain k where
    k: "k < length (appointments d)" "appointments d ! k = a"
    "appointmentCancel_try no_faults d rq =
       (Inr (status_json 404
               [(''success'', JBool False), (''message'', JStr ''Doctor not found'')]),
        d\<lparr>appointments := (appointments d)[k := a\<lparr>cancelled := True\<rparr>]\<rparr>)"
    using assms(7) by (auto simp: no_faults_def Let_def)
  then have "appointmentCancel no_faults d rq =
       (status_json 404 [(''success'', JBool False), (''message'', JStr ''Doctor not found'')],
        d\<lparr>appointments := (appointments d)[k := a\<lparr>cancelled := True\<rparr>]\<rparr>,
        [])"
    by (simp add: appointmentCancel_def catching_with_def)
  with k(1,2) show ?thesis by auto
qed

theorem appointmentCancel_without_doctor_witness:
  "\<exists>k < length (appointments orphan_db). appointments orphan_db ! k = sample_appointment \<and>
     appointmentCancel no_faults orphan_db sample_cancel_request =
       (status_json 404 [(''success'', JBool False), (''message'', JStr ''Doctor not found'')],
        orphan_db\<lparr>appointments :=
          (appointments orphan_db)[k := sample_appointment\<lparr>cancelled := True\<rparr>]\<rparr>,
        [])
     \<and> doctors (fst (snd (appointmentCancel no_faults orphan_db sample_cancel_request)))
         = doctors orphan_db
     \<and> cancelled
         (appointments (fst (snd (appointmentCancel no_faults orphan_db sample_cancel_request))) ! k)"
proof -
  have n: "''u1'' \<noteq> []" "''a1'' \<noteq> []"
    by simp_all
  have o: "findById (docId sample_appointment) (doctors orphan_db) = None"
    by (simp add: sample_cancel(4) sample_lookup(4))
  show ?thesis
    by (rule appointmentCancel_without_doctor
          [OF sample_cancel(1) n(1) sample_cancel(2) n(2) sample_lookup(2) sample_cancel(3) o])
qed

lemma inherited_sample:
  "body_userId inherited_cancel_request = Some ''u1''"
  "body_appointmentId inherited_cancel_request = Some ''a3''"
  "findById ''a3'' (appointments inherited_db) = Some inherited_appointment"
  "userId inherited_appointment = Some ''u1''"
  "findById (docId inherited_appointment) (doctors inherited_db) = Some sample_doctor"
  "get_property (slots_of sample_doctor) (slotDate inherited_appointment) = Inherited"
  by (simp_all add: inherited_cancel_request_def inherited_db_def inherited_appointment_def
        sample_doctor_def slots_of_def sample_slots_def get_property_def
        object_prototype_keys_def)

text \<open>
  C4. Not every run for the owner of a stored appointment whose doctor is stored ends
  with success. When the appointment's date is the name of a property that the doctor's
  \<^verbatim>\<open>slots_booked\<close> only inherits, here \<^verbatim>\<open>constructor\<close>, the call of \<^verbatim>\<open>filter\<close> throws:
  the answer is 500 with the TypeError's message, the appointment is cancelled all the
  same, and the doctor's document is as before.
\<close>

theorem appointmentCancel_inherited_date_counterexample:
  "body_userId inherited_cancel_request = Some ''u1''
   \<and> body_appointmentId inherited_cancel_request = Some ''a3''
   \<and> findById ''a3'' (appointments inherited_db) = Some inherited_appointment
   \<and> userId inherited_appointment = Some ''u1''
   \<and> findById (docId inherited_appointment) (doctors inherited_db) = Some sample_doctor
   \<and> appointmentCancel no_faults inherited_db inherited_cancel_request =
       (\<lparr>status = 500, body = failure_body ''slots_booked[slotDate].filter is not a function''\<rparr>,
        inherited_db\<lparr>appointments := [inherited_appointment\<lparr>cancelled := True\<rparr>]\<rparr>,
        [''slots_booked[slotDate].filter is not a function''])
   \<and> fst (appointmentCancel no_faults inherited_db inherited_cancel_request)
       \<noteq> json [(''success'', JBool True), (''message'', JStr ''Appointment Cancelled'')]"
proof -
  have n: "''u1'' \<noteq> []" "''a3'' \<noteq> []" "no_faults 0 = None" "no_faults 1 = None"
    "no_faults 2 = None"
    by (simp_all add: no_faults_def)
  from appointmentCancel_try_owner
    [OF inherited_sample(1) n(1) inherited_sample(2) n(2) inherited_sample(3,4) n(3,4,5)]
  obtain k where
    k: "k < length (appointments inherited_db)"
       "appointmentCancel_try no_faults inherited_db inherited_cancel_request =
          (Inl ''slots_booked[slotDate].filter is not a function'',
           inherited_db\<lparr>appointments :=
             (appointments inherited_db)[k := inherited_appointment\<lparr>cancelled := True\<rparr>]\<rparr>)"
    by (auto simp: inherited_sample(5) release_slot_inherited [OF inherited_sample(6)] Let_def)
  from k(1) have "k = 0"
    by (simp add: inherited_db_def)
  with k(2) have r: "appointmentCancel no_faults inherited_db inherited_cancel_request =
       (\<lparr>status = 500, body = failure_body ''slots_booked[slotDate].filter is not a function''\<rparr>,
        inherited_db\<lparr>appointments := [inherited_appointment\<lparr>cancelled := True\<rparr>]\<rparr>,
        [''slots_booked[slotDate].filter is not a function''])"
    by (simp add: appointmentCancel_def catching_with_def appointmentCancel_catch_def
          status_json_def failure_body_def inherited_db_def)
  then have "fst (appointmentCancel no_faults inherited_db inherited_cancel_request)
       \<noteq> json [(''success'', JBool True), (''message'', JStr ''Appointment Cancelled'')]"
    by (simp add: json_def)
  with r inherited_sample(1-5) show ?thesis by blast
qed

text \<open>
  C4, amended. A run of appointmentCancel for the owner of a stored appointment whose
  doctor is stored, where \<^verbatim>\<open>slots_booked[slotDate]\<close> is not a value inherited from
  \<^verbatim>\<open>Object.prototype\<close> and no query fails, answers
  \<^verbatim>\<open>{success:true, message:"Appointment Cancelled"}\<close>. Afterwards the doctor's array for
  the appointment's date is the old array without the entries equal to the appointment's
  time, in the old order, so the time does not occur in it; every other date has its old
  array; and the appointment is cancelled. Nothing else in the database has changed.
\<close>

theorem appointmentCancel_releases_slot:
  assumes "body_userId rq = Some uid" and "uid \<noteq> []"
    and "body_appointmentId rq = Some aid" and "aid \<noteq> []"
    and "findById aid (appointments d) = Some a"
    and "userId a = Some uid"
    and "findById (docId a) (doctors d) = Some dr"
    and "get_property (slots_of dr) (slotDate a) \<noteq> Inherited"
  shows "\<exists>k j slots'. k < length (appointments d) \<and> appointments d ! k = a
     \<and> j < length (doctors d) \<and> doctors d ! j = dr
     \<and> appointmentCancel no_faults d rq =
         (json [(''success'', JBool True), (''message'', JStr ''Appointment Cancelled'')],
          d\<lparr>appointments := (appointments d)[k := a\<lparr>cancelled := True\<rparr>],
            doctors := (doctors d)[j := dr\<lparr>slots_booked := Some slots'\<rparr>]\<rparr>,
          [])
     \<and> slots' (slotDate a) = map_option (filter (\<lambda>e. e \<noteq> slotTime a)) (slots_of dr (slotDate a))
     \<and> (\<forall>ts. slots' (slotDate a) = Some ts \<longrightarrow> slotTime a \<notin> set ts)
     \<and> (\<forall>sd. sd \<noteq> slotDate a \<longrightarrow> slots' sd = slots_of dr sd)"
proof -
  from release_slot_not_inherited [OF assms(8), of "slotTime a"] obtain slots' where
    s: "release_slot (slots_of dr) (slotDate a) (slotTime a) = Inr slots'"
       "slots' (slotDate a)
          = map_option (filter (\<lambda>e. e \<noteq> slotTime a)) (slots_of dr (slotDate a))"
       "\<forall>sd. sd \<noteq> slotDate a \<longrightarrow> slots' sd = slots_of dr sd"
    by blast
  from appointmentCancel_try_owner [OF assms(1-6), of no_faults] obtain k where
    k: "k < length (appointments d)" "appointments d ! k = a"
    "appointmentCancel_try no_faults d rq =
       (Inr (json [(''success'', JBool True), (''message'', JStr ''Appointment Cancelled'')]),
        d\<lparr>appointments := (appointments d)[k := a\<lparr>cancelled := True\<rparr>],
          doctors := updateById (docId a) (\<lambda>x. x\<lparr>slots_booked := Some slots'\<rparr>) (doctors d)\<rparr>)"
    using assms(7) s(1) by (auto simp: no_faults_def Let_def)
  from findById_position [OF assms(7), of "\<lambda>x. x\<lparr>slots_booked := Some slots'\<rparr>"] obtain j where
    j: "j < length (doctors d)" "doctors d ! j = dr"
       "updateById (docId a) (\<lambda>x. x\<lparr>slots_booked := Some slots'\<rparr>) (doctors d)
          = (doctors d)[j := dr\<lparr>slots_booked := Some slots'\<rparr>]"
    by blast
  have r: "appointmentCancel no_faults d rq =
         (json [(''success'', JBool True), (''message'', JStr ''Appointment Cancelled'')],
          d\<lparr>appointments := (appointments d)[k := a\<lparr>cancelled := True\<rparr>],
            doctors := (doctors d)[j := dr\<lparr>slots_booked := Some slots'\<rparr>]\<rparr>,
          [])"
    using k(3) j(3) by (simp add: appointmentCancel_def catching_with_def)
  have s2: "\<forall>ts. slots' (slotDate a) = Some ts \<longrightarrow> slotTime a \<notin> set ts"
    using s(2) by auto
  from k(1,2) j(1,2) r s(2) s2 s(3) show ?thesis by blast
qed

theorem appointmentCancel_releases_slot_witness:
  "\<exists>k j slots'. k < length (appointments sample_db)
     \<and> appointments sample_db ! k = sample_appointment
     \<and> j < length (doctors sample_db) \<and> doctors sample_db ! j = sample_doctor
     \<and> appointmentCancel no_faults sample_db sample_cancel_request =
         (json [(''success'', JBool True), (''message'', JStr ''Appointment Cancelled'')],
          sample_db\<lparr>appointments :=
              (appointments sample_db)[k := sample_appointment\<lparr>cancelled := True\<rparr>],
            doctors := (doctors sample_db)[j := sample_doctor\<lparr>slots_booked := Some slots'\<rparr>]\<rparr>,
          [])
     \<and> slots' ''2_11_2026'' = Some [''09:30 AM'', ''10:30 AM'']
     \<and> slots' ''3_11_2026'' = Some [''10:00 AM'']"
proof -
  have n: "''u1'' \<noteq> []" "''a1'' \<noteq> []"
    by simp_all
  have o: "findById (docId sample_appointment) (doctors sample_db) = Some sample_doctor"
    by (simp add: sample_cancel(4) sample_lookup(3))
  have s: "slots_of sample_doctor ''2_11_2026'' = Some [''09:30 AM'', ''10:00 AM'', ''10:30 AM'']"
    "slots_of sample_doctor ''3_11_2026'' = Some [''10:00 AM'']"
    by (simp_all add: slots_of_def sample_doctor_def sample_slots_def)
  have g: "get_property (slots_of sample_doctor) (slotDate sample_appointment) \<noteq> Inherited"
    by (simp add: get_property_def sample_cancel(5) s(1))
  from appointmentCancel_releases_slot
     [OF sample_cancel(1) n(1) sample_cancel(2) n(2) sample_lookup(1) sample_cancel(3) o g]
  obtain k j slots' where
    r: "k < length (appointments sample_db)" "appointments sample_db ! k = sample_appointment"
       "j < length (doctors sample_db)" "doctors sample_db ! j = sample_doctor"
       "appointmentCancel no_faults sample_db sample_cancel_request =
         (json [(''success'', JBool True), (''message'', JStr ''Appointment Cancelled'')],
          sample_db\<lparr>appointments :=
              (appointments sample_db)[k := sample_appointment\<lparr>cancelled := True\<rparr>],
            doctors := (doctors sample_db)[j := sample_doctor\<lparr>slots_booked := Some slots'\<rparr>]\<rparr>,
          [])"
       "slots' (slotDate sample_appointment)
          = map_option (filter (\<lambda>e. e \<noteq> slotTime sample_appointment))
              (slots_of sample_doctor (slotDate sample_appointment))"
       "\<forall>sd. sd \<noteq> slotDate sample_appointment \<longrightarrow> slots' sd = slots_of sample_doctor sd"
    by blast
  from r(6) have "slots' ''2_11_2026'' = Some [''09:30 AM'', ''10:30 AM'']"
    by (simp add: sample_cancel(5,6) s(1))
  moreover from r(7) have "slots' ''3_11_2026'' = Some [''10:00 AM'']"
    by (simp add: sample_cancel(5) s(2))
  ultimately show ?thesis using r(1-5) by blast
qed

subsection \<open>Acknowledging a verified event\<close>

text \<open>
  The enhanced handler acknowledges every verified event with status 200 and
  \<^verbatim>\<open>received: true\<close>, whatever the event holds and whether or not the update throws; an
  error leaves the database as it was and is reported once.
\<close>

lemma webhook_enhanced_acknowledges:
  assumes "verify_enhanced ce e rq = Inr ev"
  shows "\<exists>kvs d' lg. webhook_enhanced ce e f d rq = (json kvs, d', lg)
           \<and> map_of kvs ''received'' = Some (JBool True)"
proof (cases "handle_enhanced_try f d ev")
  case (Pair t d')
  show ?thesis
  proof (cases t)
    case (Inl m)
    with Pair assms have
      "webhook_enhanced ce e f d rq = (json [(''received'', JBool True), (''error'', JStr m)], d', [m])"
      by (simp add: webhook_enhanced_def catching_with_def handle_enhanced_catch_def)
    moreover have
      "map_of [(''received'', JBool True), (''error'', JStr m)] ''received'' = Some (JBool True)"
      by simp
    ultimately show ?thesis by blast
  next
    case (Inr r)
    with Pair have "r = received"
      by (auto simp: handle_enhanced_try_def Let_def
            split: if_splits option.splits prod.splits)
    with Pair Inr assms have
      "webhook_enhanced ce e f d rq = (json [(''received'', JBool True)], d', [])"
      by (simp add: webhook_enhanced_def catching_with_def received_def)
    moreover have "map_of [(''received'', JBool True)] ''received'' = Some (JBool True)"
      by simp
    ultimately show ?thesis by blast
  qed
qed

lemma webhook_enhanced_error_not_retried:
  assumes "verify_enhanced ce e rq = Inr ev" and "handle_enhanced_try f d ev = (Inl m, d')"
  shows "webhook_enhanced ce e f d rq =
           (json [(''received'', JBool True), (''error'', JStr m)], d, [m])"
  using assms handle_enhanced_try_unchanged_on_error [OF assms(2)]
  by (simp add: webhook_enhanced_def catching_with_def handle_enhanced_catch_def)

text \<open>
  The plain handler acknowledges as well when the session's metadata is an object: with
  no appointmentId in it, with an appointmentId that names no stored appointment, and
  when the update throws.
\<close>

lemma webhook_basic_acknowledges:
  assumes "ce (raw_body rq) (stripe_signature rq) (STRIPE_WEBHOOK_SECRET e) = Inr ev"
    and "event_type ev \<noteq> ''checkout.session.completed'' \<or> metadata (data_object ev) \<noteq> None"
  shows "\<exists>d' lg. webhook_basic ce e f d rq = (Inr received, d', lg)"
  using assms by (auto simp: webhook_basic_def split: prod.splits)

lemma webhook_basic_nothing_to_update:
  assumes "ce (raw_body rq) (stripe_signature rq) (STRIPE_WEBHOOK_SECRET e) = Inr ev"
    and "event_type ev = ''checkout.session.completed''"
    and "metadata (data_object ev) = Some md"
    and "f 0 \<noteq> None \<or> map_of md ''appointmentId'' = None
         \<or> (\<exists>aid. map_of md ''appointmentId'' = Some aid \<and> findById aid (appointments d) = None)"
  shows "\<exists>lg. webhook_basic ce e f d rq = (Inr received, d, lg) \<and> length lg = 1"
  using assms
  by (auto simp: webhook_basic_def update_payment_basic_def findByIdAndUpdate_absent
        split: option.splits)

text \<open>
  C5. The plain handler reads \<^verbatim>\<open>session.metadata.appointmentId\<close> outside its
  \<^verbatim>\<open>try\<close>. For a verified \<^verbatim>\<open>checkout.session.completed\<close> event whose session has
  \<^verbatim>\<open>metadata: null\<close> the read throws, nothing catches the error, and the handler sends no
  response: not the status 200 with \<^verbatim>\<open>received: true\<close> that the enhanced handler sends for
  the same request.
\<close>

theorem webhook_basic_null_metadata_uncaught:
  "sample_constructEvent (raw_body (signed_request ''bare''))
      (stripe_signature (signed_request ''bare'')) (STRIPE_WEBHOOK_SECRET sample_env)
     = Inr bare_event
   \<and> webhook_basic sample_constructEvent sample_env no_faults sample_db (signed_request ''bare'')
     = (Inl (null_property ''appointmentId''), sample_db, [])
   \<and> webhook_enhanced sample_constructEvent sample_env no_faults sample_db (signed_request ''bare'')
     = (json [(''received'', JBool True), (''error'', JStr (null_property ''appointmentId''))],
        sample_db, [null_property ''appointmentId''])"
proof -
  note v = sample_verification(8)
  have "webhook_basic sample_constructEvent sample_env no_faults sample_db (signed_request ''bare'')
     = (Inl (null_property ''appointmentId''), sample_db, [])"
    by (simp add: webhook_basic_def sample_verification(6) bare_event_def)
  moreover have
    "webhook_enhanced sample_constructEvent sample_env no_faults sample_db (signed_request ''bare'')
     = (json [(''received'', JBool True), (''error'', JStr (null_property ''appointmentId''))],
        sample_db, [null_property ''appointmentId''])"
    by (simp add: webhook_enhanced_def v handle_enhanced_try_def bare_event_def
          catching_with_def handle_enhanced_catch_def)
  ultimately show ?thesis
    using sample_verification(6) by blast
qed

subsection \<open>Adding a doctor\<close>












subsection \<open>The upload middleware\<close>

lemma string_of_nat_samples:
  "string_of_nat 1730000000000 = ''1730000000000''"
  "string_of_nat 123456789 = ''123456789''"
  "string_of_nat 0 = ''0''"
  by (simp_all add: string_of_nat.simps digit_char_def)

text \<open>
  C7. The filter accepts a file exactly when its mimetype starts with \<^verbatim>\<open>image/\<close> and
  answers every other file with an error. The size limit is 1024 * 1024 * 5 = 5242880
  bytes. A file is stored exactly when it passes the filter and is not larger than the
  limit; it is then written to the uploads directory under the name
  \<^verbatim>\<open>fieldname-<timestamp>-<random>\<close> followed by the extension of its original name.
\<close>

theorem upload_accepts_images_within_limit:
  "(fileFilter file = Inr True \<longleftrightarrow> prefix ''image/'' (mimetype file))
   \<and> (\<not> prefix ''image/'' (mimetype file) \<longrightarrow>
        fileFilter file = Inl ''Not an image! Please upload an image.''
        \<and> upload dir ext now rnd file = Inl (FilterError ''Not an image! Please upload an image.''))
   \<and> fileSize = 5242880
   \<and> (prefix ''image/'' (mimetype file) \<and> 5242880 < size_bytes file \<longrightarrow>
        upload dir ext now rnd file = Inl LIMIT_FILE_SIZE)
   \<and> (upload dir ext now rnd file = Inr (Some st) \<longleftrightarrow>
        prefix ''image/'' (mimetype file) \<and> size_bytes file \<le> 5242880
        \<and> st = \<lparr>destination = dir,
                 stored_filename =
                   fieldname file @ ''-'' @ string_of_nat now @ ''-'' @ string_of_nat rnd
                     @ ext (originalname file)\<rparr>)"
proof -
  have 1: "fileFilter file = Inr True \<longleftrightarrow> prefix ''image/'' (mimetype file)"
    by (simp add: fileFilter_def)
  have 2: "\<not> prefix ''image/'' (mimetype file) \<longrightarrow>
        fileFilter file = Inl ''Not an image! Please upload an image.''
        \<and> upload dir ext now rnd file = Inl (FilterError ''Not an image! Please upload an image.'')"
    by (simp add: fileFilter_def upload_def)
  have 3: "fileSize = 5242880"
    by (simp add: fileSize_def)
  have 4: "prefix ''image/'' (mimetype file) \<and> 5242880 < size_bytes file \<longrightarrow>
        upload dir ext now rnd file = Inl LIMIT_FILE_SIZE"
    by (simp add: fileFilter_def upload_def fileSize_def)
  have 5: "upload dir ext now rnd file = Inr (Some st) \<longleftrightarrow>
        prefix ''image/'' (mimetype file) \<and> size_bytes file \<le> 5242880
        \<and> st = \<lparr>destination = dir,
                 stored_filename =
                   fieldname file @ ''-'' @ string_of_nat now @ ''-'' @ string_of_nat rnd
                     @ ext (originalname file)\<rparr>"
    by (auto simp: fileFilter_def upload_def fileSize_def filename_def Let_def)
  from 1 2 3 4 5 show ?thesis by blast
qed

theorem upload_accepts_images_within_limit_witness:
  "upload ''/srv/uploads'' sample_extname 1730000000000 123456789 sample_upload_file
     = Inr (Some \<lparr>destination = ''/srv/uploads'',
                  stored_filename = ''image-1730000000000-123456789.png''\<rparr>)
   \<and> upload ''/srv/uploads'' sample_extname 1730000000000 123456789
        (sample_upload_file\<lparr>mimetype := ''application/pdf''\<rparr>)
     = Inl (FilterError ''Not an image! Please upload an image.'')
   \<and> upload ''/srv/uploads'' sample_extname 1730000000000 123456789
        (sample_upload_file\<lparr>size_bytes := 5242881\<rparr>)
     = Inl LIMIT_FILE_SIZE"
proof -
  have m: "prefix ''image/'' (mimetype sample_upload_file)"
    "size_bytes sample_upload_file \<le> 5242880"
    "\<not> prefix ''image/'' (mimetype (sample_upload_file\<lparr>mimetype := ''application/pdf''\<rparr>))"
    "prefix ''image/'' (mimetype (sample_upload_file\<lparr>size_bytes := 5242881\<rparr>))"
    "5242880 < size_bytes (sample_upload_file\<lparr>size_bytes := 5242881\<rparr>)"
    by (simp_all add: sample_upload_file_def)
  have n: "fieldname sample_upload_file @ ''-'' @ string_of_nat 1730000000000 @ ''-''
             @ string_of_nat 123456789 @ sample_extname (originalname sample_upload_file)
           = ''image-1730000000000-123456789.png''"
    by (simp add: string_of_nat_samples sample_upload_file_def sample_extname_def)
  note t1 = upload_accepts_images_within_limit
    [of sample_upload_file "''/srv/uploads''" sample_extname 1730000000000 123456789
        "\<lparr>destination = ''/srv/uploads'',
          stored_filename = ''image-1730000000000-123456789.png''\<rparr>"]
  note t2 = upload_accepts_images_within_limit
    [of "sample_upload_file\<lparr>mimetype := ''application/pdf''\<rparr>" "''/srv/uploads''"
        sample_extname 1730000000000 123456789]
  note t3 = upload_accepts_images_within_limit
    [of "sample_upload_file\<lparr>size_bytes := 5242881\<rparr>" "''/srv/uploads''"
        sample_extname 1730000000000 123456789]
  from t1 m(1,2) n have
    "upload ''/srv/uploads'' sample_extname 1730000000000 123456789 sample_upload_file
       = Inr (Some \<lparr>destination = ''/srv/uploads'',
                    stored_filename = ''image-1730000000000-123456789.png''\<rparr>)"
    by simp
  moreover from t2 m(3) have
    "upload ''/srv/uploads'' sample_extname 1730000000000 123456789
        (sample_upload_file\<lparr>mimetype := ''application/pdf''\<rparr>)
     = Inl (FilterError ''Not an image! Please upload an image.'')"
    by blast
  moreover from t3 m(4,5) have
    "upload ''/srv/uploads'' sample_extname 1730000000000 123456789
        (sample_upload_file\<lparr>size_bytes := 5242881\<rparr>)
     = Inl LIMIT_FILE_SIZE"
    by blast
  ultimately show ?thesis by blast
qed

subsection \<open>Caught errors\<close>

lemma query_fails_thrown:
  "allDoctors_try query_fails d = Inl ''connection lost''"
  "appointmentsAdmin_try query_fails d = Inl ''connection lost''"
  "adminDashboard_try query_fails d = Inl ''connection lost''"
  "appointmentCancel_try query_fails sample_db sample_cancel_request
     = (Inl ''connection lost'', sample_db)"
  "addDoctor_try sample_platform query_fails sample_db sample_addDoctor_request
     = (Inl ''connection lost'', sample_db)"
  "checkout_enhanced_try sample_env declining_create sample_checkout_request
     = Inl ''Invalid API Key provided''"
  "checkout_basic_try declining_create sample_checkout_request
     = Inl ''Invalid API Key provided''"
  "loginAdmin_try sample_env sample_jwt_sign sample_login_request
     = Inl ''secretOrPrivateKey must have a value''"
  by (simp_all add: allDoctors_try_def appointmentsAdmin_try_def adminDashboard_try_def
        appointmentCancel_try_def addDoctor_try_def checkout_enhanced_try_def
        checkout_basic_try_def loginAdmin_try_def query_fails_def sample_cancel_request_def
        truthy_def sample_env_def declining_create_def checkout_answer_def
        sample_checkout_request_def sample_login_request_def sample_jwt_sign_def
        required_fields_def sample_platform_def Let_def sample_addDoctor_request_def
        cleanQuotes_def strip_quotes_def trim_def white_space_def dquote_def utf16_def)

text \<open>
  C8. Not every endpoint answers a thrown error with the body
  \<^verbatim>\<open>{success:false, message}\<close>: when the payment provider throws at the
  checkout-session endpoint, the answer has status 500 and the body
  \<^verbatim>\<open>{success:false, error}\<close>, which has no \<open>message\<close> field.
\<close>

theorem checkout_failure_has_no_message_counterexample:
  "checkout_enhanced_try sample_env declining_create sample_checkout_request
     = Inl ''Invalid API Key provided''
   \<and> body (fst (checkout_enhanced sample_env declining_create sample_checkout_request))
     = Json [(''success'', JBool False), (''error'', JStr ''Invalid API Key provided'')]
   \<and> body (fst (checkout_enhanced sample_env declining_create sample_checkout_request))
     \<noteq> failure_body ''Invalid API Key provided''"
  by (simp add: checkout_enhanced_def query_fails_thrown catching_def checkout_catch_def
        status_json_def failure_body_def)

lemma addDoctor_invalid_address:
  assumes "file_filename rq \<noteq> None"
    and "list_all (\<lambda>kv. truthy (snd kv)) (required_fields rq)"
    and "isEmail p (the (cleanQuotes (body_email rq)))"
    and "8 \<le> length (the (cleanQuotes (body_password rq)))"
    and "find (\<lambda>x. email x = the (cleanQuotes (body_email rq))) (doctors d) = None"
    and "f 0 = None" and "f 1 = None" and "f 2 = None" and "f 3 = None"
    and "JSON_parse p (the (body_address rq)) = Inl syntax_error"
  shows "addDoctor p f d rq =
     (\<lparr>status = 400,
       body = Json [(''success'', JBool False),
                    (''message'',
                     JStr ''Invalid address format. Please provide a valid JSON object''),
                    (''receivedAddress'', JText (the (body_address rq)))]\<rparr>, d, [])"
  using assms
  unfolding addDoctor_def addDoctor_try_def catching_with_def Let_def list_all_iff
    bad_request_def status_json_def parse_address_def
  by auto

lemma sample_invalid_address:
  "file_filename (sample_addDoctor_request\<lparr>body_address := Some (utf16 ''not json'')\<rparr>) \<noteq> None"
  "list_all (\<lambda>kv. truthy (snd kv))
     (required_fields (sample_addDoctor_request\<lparr>body_address := Some (utf16 ''not json'')\<rparr>))"
  "isEmail sample_platform (the (cleanQuotes (body_email
     (sample_addDoctor_request\<lparr>body_address := Some (utf16 ''not json'')\<rparr>))))"
  "8 \<le> length (the (cleanQuotes (body_password
     (sample_addDoctor_request\<lparr>body_address := Some (utf16 ''not json'')\<rparr>))))"
  "find (\<lambda>x. email x = the (cleanQuotes (body_email
      (sample_addDoctor_request\<lparr>body_address := Some (utf16 ''not json'')\<rparr>))))
     (doctors sample_db) = None"
  "JSON_parse sample_platform
     (the (body_address (sample_addDoctor_request\<lparr>body_address := Some (utf16 ''not json'')\<rparr>)))
   = Inl ''Unexpected token in JSON''"
  by (simp_all add: required_fields_def truthy_def sample_platform_def sample_db_def
        sample_doctor_def sample_addDoctor_request_def utf16_def
        cleanQuotes_def strip_quotes_def trim_def white_space_def dquote_def)

text \<open>
  C8, amended. An error that reaches the \<^verbatim>\<open>catch\<close> block at the boundary of a handler is
  reported once on the console and answered once, with \<open>success\<close> false and no second
  attempt; the database stays as it was when the error was thrown. loginAdmin,
  allDoctors, appointmentsAdmin and adminDashboard answer with status 200 and the body
  \<^verbatim>\<open>{success:false, message}\<close> that carries the error's message, appointmentCancel with
  the same body and status 500. addDoctor answers 500 with the message
  "Internal server error" and the error's message in \<open>error\<close>; the checkout-session
  endpoint, in both server files, answers 500 with the error's message in \<open>error\<close>. One
  error does not reach the boundary: the SyntaxError that \<^verbatim>\<open>JSON.parse\<close> throws on the
  address in addDoctor is caught by a \<^verbatim>\<open>catch\<close> of its own, which writes nothing to the
  console and answers 400 with the message
  "Invalid address format. Please provide a valid JSON object" and the received address.
\<close>

theorem thrown_errors_are_caught_and_answered:
  "(loginAdmin_try e sign lrq = Inl m \<longrightarrow>
      loginAdmin e sign lrq = (\<lparr>status = 200, body = failure_body m\<rparr>, [m]))
   \<and> (allDoctors_try f d = Inl m \<longrightarrow>
      allDoctors f d = (\<lparr>status = 200, body = failure_body m\<rparr>, [m]))
   \<and> (appointmentsAdmin_try f d = Inl m \<longrightarrow>
      appointmentsAdmin f d = (\<lparr>status = 200, body = failure_body m\<rparr>, [m]))
   \<and> (adminDashboard_try f d = Inl m \<longrightarrow>
      adminDashboard f d = (\<lparr>status = 200, body = failure_body m\<rparr>, [m]))
   \<and> (appointmentCancel_try f d crq = (Inl m, d') \<longrightarrow>
      appointmentCancel f d crq = (\<lparr>status = 500, body = failure_body m\<rparr>, d', [m]))
   \<and> (addDoctor_try p f d arq = (Inl m, d') \<longrightarrow>
      addDoctor p f d arq =
        (\<lparr>status = 500,
          body = Json [(''success'', JBool False), (''message'', JStr ''Internal server error''),
                       (''error'', JStr m)]\<rparr>, d', [m]))
   \<and> (checkout_enhanced_try e create krq = Inl m \<longrightarrow>
      checkout_enhanced e create krq =
        (\<lparr>status = 500, body = Json [(''success'', JBool False), (''error'', JStr m)]\<rparr>, [m]))
   \<and> (checkout_basic_try create krq = Inl m \<longrightarrow>
      checkout_basic create krq =
        (\<lparr>status = 500, body = Json [(''success'', JBool False), (''error'', JStr m)]\<rparr>, [m]))
   \<and> (file_filename arq \<noteq> None
       \<and> list_all (\<lambda>kv. truthy (snd kv)) (required_fields arq)
       \<and> isEmail p (the (cleanQuotes (body_email arq)))
       \<and> 8 \<le> length (the (cleanQuotes (body_password arq)))
       \<and> find (\<lambda>x. email x = the (cleanQuotes (body_email arq))) (doctors d) = None
       \<and> f 0 = None \<and> f 1 = None \<and> f 2 = None \<and> f 3 = None
       \<and> JSON_parse p (the (body_address arq)) = Inl m \<longrightarrow>
      addDoctor p f d arq =
        (\<lparr>status = 400,
          body = Json [(''success'', JBool False),
                       (''message'',
                        JStr ''Invalid address format. Please provide a valid JSON object''),
                       (''receivedAddress'', JText (the (body_address arq)))]\<rparr>, d, []))"
proof -
  have "file_filename arq \<noteq> None
       \<and> list_all (\<lambda>kv. truthy (snd kv)) (required_fields arq)
       \<and> isEmail p (the (cleanQuotes (body_email arq)))
       \<and> 8 \<le> length (the (cleanQuotes (body_password arq)))
       \<and> find (\<lambda>x. email x = the (cleanQuotes (body_email arq))) (doctors d) = None
       \<and> f 0 = None \<and> f 1 = None \<and> f 2 = None \<and> f 3 = None
       \<and> JSON_parse p (the (body_address arq)) = Inl m \<longrightarrow>
      addDoctor p f d arq =
        (\<lparr>status = 400,
          body = Json [(''success'', JBool False),
                       (''message'',
                        JStr ''Invalid address format. Please provide a valid JSON object''),
                       (''receivedAddress'', JText (the (body_address arq)))]\<rparr>, d, [])"
    using addDoctor_invalid_address [of arq p d f m] by blast
  then show ?thesis
    by (simp add: loginAdmin_def allDoctors_def appointmentsAdmin_def adminDashboard_def
        appointmentCancel_def addDoctor_def checkout_enhanced_def checkout_basic_def
        catching_def catching_with_def catch_message_def appointmentCancel_catch_def
        addDoctor_catch_def checkout_catch_def json_def status_json_def failure_body_def)
qed

theorem thrown_errors_are_caught_and_answered_witness:
  "loginAdmin sample_env sample_jwt_sign sample_login_request
     = (\<lparr>status = 200, body = failure_body ''secretOrPrivateKey must have a value''\<rparr>,
        [''secretOrPrivateKey must have a value''])
   \<and> allDoctors query_fails sample_db
     = (\<lparr>status = 200, body = failure_body ''connection lost''\<rparr>, [''connection lost''])
   \<and> appointmentsAdmin query_fails sample_db
     = (\<lparr>status = 200, body = failure_body ''connection lost''\<rparr>, [''connection lost''])
   \<and> adminDashboard query_fails sample_db
     = (\<lparr>status = 200, body = failure_body ''connection lost''\<rparr>, [''connection lost''])
   \<and> appointmentCancel query_fails sample_db sample_cancel_request
     = (\<lparr>status = 500, body = failure_body ''connection lost''\<rparr>, sample_db,
        [''connection lost''])
   \<and> addDoctor sample_platform query_fails sample_db sample_addDoctor_request
     = (\<lparr>status = 500,
         body = Json [(''success'', JBool False), (''message'', JStr ''Internal server error''),
                      (''error'', JStr ''connection lost'')]\<rparr>, sample_db, [''connection lost''])
   \<and> checkout_enhanced sample_env declining_create sample_checkout_request
     = (\<lparr>status = 500,
         body = Json [(''success'', JBool False), (''error'', JStr ''Invalid API Key provided'')]\<rparr>,
        [''Invalid API Key provided''])
   \<and> checkout_basic declining_create sample_checkout_request
     = (\<lparr>status = 500,
         body = Json [(''success'', JBool False), (''error'', JStr ''Invalid API Key provided'')]\<rparr>,
        [''Invalid API Key provided''])
   \<and> addDoctor sample_platform no_faults sample_db
        (sample_addDoctor_request\<lparr>body_address := Some (utf16 ''not json'')\<rparr>)
     = (\<lparr>status = 400,
         body = Json [(''success'', JBool False),
                      (''message'',
                       JStr ''Invalid address format. Please provide a valid JSON object''),
                      (''receivedAddress'', JText (utf16 ''not json''))]\<rparr>, sample_db, [])"
proof -
  note t1 = thrown_errors_are_caught_and_answered
    [of sample_env sample_jwt_sign sample_login_request "''secretOrPrivateKey must have a value''"]
  note t2 = thrown_errors_are_caught_and_answered
    [of _ _ _ "''connection lost''" query_fails sample_db sample_cancel_request sample_db
        sample_platform sample_addDoctor_request]
  note t3 = thrown_errors_are_caught_and_answered
    [of sample_env _ _ "''Invalid API Key provided''" _ _ _ _ _ _ declining_create
        sample_checkout_request]
  note t4 = thrown_errors_are_caught_and_answered
    [of _ _ _ "''Unexpected token in JSON''" no_faults sample_db _ _ sample_platform
        "sample_addDoctor_request\<lparr>body_address := Some (utf16 ''not json'')\<rparr>"]
  have n: "no_faults 0 = None" "no_faults 1 = None" "no_faults 2 = None" "no_faults 3 = None"
    by (simp_all add: no_faults_def)
  from t1 query_fails_thrown(8) have
    "loginAdmin sample_env sample_jwt_sign sample_login_request
     = (\<lparr>status = 200, body = failure_body ''secretOrPrivateKey must have a value''\<rparr>,
        [''secretOrPrivateKey must have a value''])"
    by blast
  moreover from t2 query_fails_thrown(1-5) have
    "allDoctors query_fails sample_db
     = (\<lparr>status = 200, body = failure_body ''connection lost''\<rparr>, [''connection lost''])"
    "appointmentsAdmin query_fails sample_db
     = (\<lparr>status = 200, body = failure_body ''connection lost''\<rparr>, [''connection lost''])"
    "adminDashboard query_fails sample_db
     = (\<lparr>status = 200, body = failure_body ''connection lost''\<rparr>, [''connection lost''])"
    "appointmentCancel query_fails sample_db sample_cancel_request
     = (\<lparr>status = 500, body = failure_body ''connection lost''\<rparr>, sample_db,
        [''connection lost''])"
    "addDoctor sample_platform query_fails sample_db sample_addDoctor_request
     = (\<lparr>status = 500,
         body = Json [(''success'', JBool False), (''message'', JStr ''Internal server error''),
                      (''error'', JStr ''connection lost'')]\<rparr>, sample_db, [''connection lost''])"
    by blast+
  moreover from t3 query_fails_thrown(6,7) have
    "checkout_enhanced sample_env declining_create sample_checkout_request
     = (\<lparr>status = 500,
         body = Json [(''success'', JBool False), (''error'', JStr ''Invalid API Key provided'')]\<rparr>,
        [''Invalid API Key provided''])"
    "checkout_basic declining_create sample_checkout_request
     = (\<lparr>status = 500,
         body = Json [(''success'', JBool False), (''error'', JStr ''Invalid API Key provided'')]\<rparr>,
        [''Invalid API Key provided''])"
    by blast+
  moreover have a: "the (body_address
      (sample_addDoctor_request\<lparr>body_address := Some (utf16 ''not json'')\<rparr>)) = utf16 ''not json''"
    by simp
  from t4 sample_invalid_address n have
    "addDoctor sample_platform no_faults sample_db
        (sample_addDoctor_request\<lparr>body_address := Some (utf16 ''not json'')\<rparr>)
     = (\<lparr>status = 400,
         body = Json [(''success'', JBool False),
                      (''message'',
                       JStr ''Invalid address format. Please provide a valid JSON object''),
                      (''receivedAddress'',
                       JText (the (body_address
                         (sample_addDoctor_request\<lparr>body_address := Some (utf16 ''not json'')\<rparr>))))]\<rparr>,
        sample_db, [])"
    by blast
  with a have
    "addDoctor sample_platform no_faults sample_db
        (sample_addDoctor_request\<lparr>body_address := Some (utf16 ''not json'')\<rparr>)
     = (\<lparr>status = 400,
         body = Json [(''success'', JBool False),
                      (''message'',
                       JStr ''Invalid address format. Please provide a valid JSON object''),
                      (''receivedAddress'', JText (utf16 ''not json''))]\<rparr>, sample_db, [])"
    by simp
  ultimately show ?thesis by blast
qed

subsection \<open>The dashboard\<close>

text \<open>
  C10. Whatever the database holds, the dashboard answers with the sizes of the three
  collections, and \<open>latestAppointments\<close> is the last \<open>min 5 n\<close> appointments of the query
  result, latest first; it never has more than five entries.
\<close>

theorem adminDashboard_counts_and_latest:
  "adminDashboard no_faults d =
     (json [(''success'', JBool True), (''dashData'', JObj (dashData d))], [])
   \<and> map_of (dashData d) ''doctors'' = Some (JNum (int (length (doctors d))))
   \<and> map_of (dashData d) ''appointments'' = Some (JNum (int (length (appointments d))))
   \<and> map_of (dashData d) ''patients'' = Some (JNum (int (length (users d))))
   \<and> (\<exists>latest. map_of (dashData d) ''latestAppointments'' = Some (JAppointments latest)
        \<and> latest = rev (drop (length (appointments d) - 5) (appointments d))
        \<and> length latest = min 5 (length (appointments d))
        \<and> length latest \<le> 5)"
proof -
  have "take 5 (rev (appointments d)) = rev (drop (length (appointments d) - 5) (appointments d))"
    by (simp add: take_rev)
  moreover have "length (take 5 (rev (appointments d))) = min 5 (length (appointments d))"
    by simp
  ultimately show ?thesis
    by (simp add: adminDashboard_def adminDashboard_try_def no_faults_def dashData_def
          catching_def)
qed

end
